theory Spec2Isabelle
  imports Complex_Main "HOL-Library.AList"
begin

section \<open>Values exchanged with the JSON store and the model client\<close>

text \<open>
  Agents, task analyses and the storage document are Python dictionaries obtained from
  \<^verbatim>\<open>json.load\<close> / \<^verbatim>\<open>json.loads\<close>. A JSON value is \<^verbatim>\<open>None\<close>, a boolean, a number, a string, a
  list or a dictionary with string keys. Numbers are restricted to integers here. A dictionary
  is an association list in insertion order; the first binding of a key is the one in force
  (a parsed document has no duplicate keys).
\<close>

datatype jval =
    JNull
  | JBool bool
  | JInt int
  | JStr string
  | JArr "jval list"
  | JObj "(string \<times> jval) list"

type_synonym dict = "(string \<times> jval) list"

text \<open>\<^verbatim>\<open>d.get(k, default)\<close>; \<^verbatim>\<open>d.get(k)\<close> is \<^verbatim>\<open>d.get(k, None)\<close>.\<close>

definition dict_get :: "dict \<Rightarrow> string \<Rightarrow> jval \<Rightarrow> jval" where
  "dict_get d k dflt = (case map_of d k of None \<Rightarrow> dflt | Some v \<Rightarrow> v)"

text \<open>Truth value of an object in a condition (\<^verbatim>\<open>if x:\<close>, \<^verbatim>\<open>not x\<close>, \<^verbatim>\<open>x and y\<close>).\<close>

fun truthy :: "jval \<Rightarrow> bool" where
  "truthy JNull = False"
| "truthy (JBool b) = b"
| "truthy (JInt n) = (n \<noteq> 0)"
| "truthy (JStr s) = (s \<noteq> [])"
| "truthy (JArr xs) = (xs \<noteq> [])"
| "truthy (JObj kvs) = (kvs \<noteq> [])"

text \<open>
  Python's \<^verbatim>\<open>==\<close> on such values: booleans compare as the integers 0 and 1, lists
  element by element, dictionaries by key set and the values under each key.
\<close>

fun py_eq :: "jval \<Rightarrow> jval \<Rightarrow> bool" where
  "py_eq JNull b = (case b of JNull \<Rightarrow> True | _ \<Rightarrow> False)"
| "py_eq (JBool x) b =
     (case b of JBool y \<Rightarrow> x = y | JInt n \<Rightarrow> (if x then 1 else 0) = n | _ \<Rightarrow> False)"
| "py_eq (JInt m) b =
     (case b of JBool y \<Rightarrow> m = (if y then 1 else 0) | JInt n \<Rightarrow> m = n | _ \<Rightarrow> False)"
| "py_eq (JStr s) b = (case b of JStr t \<Rightarrow> s = t | _ \<Rightarrow> False)"
| "py_eq (JArr xs) b = (case b of JArr ys \<Rightarrow> list_all2 py_eq xs ys | _ \<Rightarrow> False)"
| "py_eq (JObj xs) b =
     (case b of
        JObj ys \<Rightarrow>
          length (remdups (map fst xs)) = length (remdups (map fst ys)) \<and>
          list_all (\<lambda>(k, v). case map_of ys k of
                                None \<Rightarrow> False
                              | Some w \<Rightarrow> map_of xs k = Some v \<longrightarrow> py_eq v w) xs
      | _ \<Rightarrow> False)"

text \<open>
  An f-string field \<^verbatim>\<open>{v}\<close> is \<^verbatim>\<open>str(v)\<close>: a string stands for itself; the rendering of
  any other value is Python's own and is taken as the parameter \<open>render\<close>.
\<close>

definition py_format :: "(jval \<Rightarrow> string) \<Rightarrow> jval \<Rightarrow> string" where
  "py_format render v = (case v of JStr s \<Rightarrow> s | _ \<Rightarrow> render v)"

section \<open>similarity\_search.py\<close>

subsection \<open>Characters and the string methods used\<close>

text \<open>
  A \<^typ>\<open>char\<close> is a code point below 256. \<open>py_isspace\<close> is \<^verbatim>\<open>str.isspace\<close> on that range,
  which is also what \<^verbatim>\<open>\s\<close>, \<^verbatim>\<open>strip()\<close> and \<^verbatim>\<open>split()\<close> take as whitespace;
  \<open>lower_char\<close> is \<^verbatim>\<open>str.lower\<close> on one character.
\<close>

definition py_isspace :: "char \<Rightarrow> bool" where
  "py_isspace c = (of_char c \<in> {9, 10, 11, 12, 13, 28, 29, 30, 31, 32, 133, 160 :: nat})"

definition lower_char :: "char \<Rightarrow> char" where
  "lower_char c =
     (let n = (of_char c :: nat)
      in if (65 \<le> n \<and> n \<le> 90) \<or> (192 \<le> n \<and> n \<le> 222 \<and> n \<noteq> 215)
         then char_of (n + 32) else c)"

text \<open>The character class \<^verbatim>\<open>[a-zA-Z0-9]\<close>.\<close>

definition is_word_char :: "char \<Rightarrow> bool" where
  "is_word_char c =
     (let n = (of_char c :: nat)
      in (97 \<le> n \<and> n \<le> 122) \<or> (65 \<le> n \<and> n \<le> 90) \<or> (48 \<le> n \<and> n \<le> 57))"

text \<open>\<^verbatim>\<open>re.sub(r'[^a-zA-Z0-9\s]', ' ', text)\<close>\<close>

definition sub_special :: "string \<Rightarrow> string" where
  "sub_special s = map (\<lambda>c. if is_word_char c \<or> py_isspace c then c else CHR '' '') s"

text \<open>\<^verbatim>\<open>re.sub(r'\s+', ' ', text)\<close>: every maximal run of whitespace becomes one space.\<close>

function sub_spaces :: "string \<Rightarrow> string" where
  "sub_spaces [] = []"
| "sub_spaces (c # cs) =
     (if py_isspace c then CHR '' '' # sub_spaces (dropWhile py_isspace cs)
      else c # sub_spaces cs)"
  by pat_completeness auto
termination
  by (relation "measure length") (auto simp: le_imp_less_Suc length_dropWhile_le)

text \<open>\<^verbatim>\<open>text.strip()\<close>: trailing whitespace goes first, then leading whitespace.\<close>

primrec rstrip :: "string \<Rightarrow> string" where
  "rstrip [] = []"
| "rstrip (c # cs) = (let r = rstrip cs in if r = [] \<and> py_isspace c then [] else c # r)"

definition py_strip :: "string \<Rightarrow> string" where
  "py_strip s = dropWhile py_isspace (rstrip s)"

text \<open>
  \<^verbatim>\<open>text.split()\<close>: the maximal runs of non-whitespace, in order; \<open>w\<close> is the word being
  read.
\<close>

fun split_from :: "string \<Rightarrow> string \<Rightarrow> string list" where
  "split_from w [] = (if w = [] then [] else [w])"
| "split_from w (c # cs) =
     (if py_isspace c then (if w = [] then split_from [] cs else w # split_from [] cs)
      else split_from (w @ [c]) cs)"

definition py_split :: "string \<Rightarrow> string list" where
  "py_split s = split_from [] s"

subsection \<open>\_normalize\_text\<close>

definition normalize_text :: "string \<Rightarrow> string" where
  "normalize_text text = py_strip (sub_spaces (sub_special (map lower_char text)))"

subsection \<open>The three metrics\<close>

text \<open>
  A score is a Python float. Scores are real numbers here, the operations on them exact, and
  the constants \<^verbatim>\<open>0.4\<close>, \<^verbatim>\<open>0.3\<close>, \<^verbatim>\<open>0.09\<close> and \<^verbatim>\<open>1.0\<close> the numbers they are written as.
  A float result can differ from the exact one in the last place: the cosine of a text with
  itself can come out as \<^verbatim>\<open>1.0000000000000002\<close>, where the exact value is 1.
\<close>

definition jaccard_similarity :: "string \<Rightarrow> string \<Rightarrow> real" where
  "jaccard_similarity text1 text2 =
     (let tokens1 = set (py_split (normalize_text text1));
          tokens2 = set (py_split (normalize_text text2))
      in if tokens1 = {} \<and> tokens2 = {} then 1
         else if tokens1 = {} \<or> tokens2 = {} then 0
         else let intersection = card (tokens1 \<inter> tokens2);
                  union = card (tokens1 \<union> tokens2)
              in if union > 0 then real intersection / real union else 0)"

definition keyword_overlap_similarity :: "string \<Rightarrow> string \<Rightarrow> real" where
  "keyword_overlap_similarity text1 text2 =
     (let keywords1 = set (filter (\<lambda>word. length word > 3) (py_split (normalize_text text1)));
          keywords2 = set (filter (\<lambda>word. length word > 3) (py_split (normalize_text text2)))
      in if keywords1 = {} \<and> keywords2 = {} then 1
         else if keywords1 = {} \<or> keywords2 = {} then 0
         else let overlap = card (keywords1 \<inter> keywords2);
                  max_possible = max (card keywords1) (card keywords2)
              in if max_possible > 0 then real overlap / real max_possible else 0)"

text \<open>
  \<^verbatim>\<open>np.dot\<close> and \<^verbatim>\<open>np.linalg.norm\<close> on integer vectors. The vocabulary
  \<^verbatim>\<open>list(set(words1 + words2))\<close> has each word once, in an order Python does not fix; the
  result does not depend on it, and one such order is taken here.
\<close>

definition dot :: "int list \<Rightarrow> int list \<Rightarrow> int" where
  "dot v1 v2 = sum_list (map2 (*) v1 v2)"

definition norm_vec :: "int list \<Rightarrow> real" where
  "norm_vec v = sqrt (real_of_int (sum_list (map (\<lambda>x. x * x) v)))"

definition cosine_similarity_simple :: "string \<Rightarrow> string \<Rightarrow> real" where
  "cosine_similarity_simple text1 text2 =
     (let words1 = py_split (normalize_text text1);
          words2 = py_split (normalize_text text2);
          vocab = remdups (words1 @ words2)
      in if vocab = [] then 1
         else let vec1 = map (\<lambda>word. int (count_list words1 word)) vocab;
                  vec2 = map (\<lambda>word. int (count_list words2 word)) vocab;
                  dot_product = dot vec1 vec2;
                  magnitude1 = norm_vec vec1;
                  magnitude2 = norm_vec vec2
              in if magnitude1 = 0 \<or> magnitude2 = 0 then 0
                 else real_of_int dot_product / (magnitude1 * magnitude2))"

subsection \<open>\_calculate\_similarity\<close>

definition agent_text :: "(jval \<Rightarrow> string) \<Rightarrow> dict \<Rightarrow> string" where
  "agent_text render agent =
     py_format render (dict_get agent ''description'' (JStr '''')) @ '' '' @
     py_format render (dict_get agent ''task_type'' (JStr '''')) @ '' '' @
     py_format render (dict_get agent ''name'' (JStr ''''))"

definition weights :: "real list" where
  "weights = [4 / 10, 3 / 10, 3 / 10]"

text \<open>
  The end of the function, from the list \<open>scores\<close> on: the weighted sum and
  \<^verbatim>\<open>min(weighted_score, 1.0)\<close>. It is a function of its own, so that what holds of it holds
  for any three scores, also for scores that rounding has taken above 1.
\<close>

definition combine_scores :: "real list \<Rightarrow> real" where
  "combine_scores scores =
     (let weighted_score = sum_list (map2 (\<lambda>score weight. score * weight) scores weights)
      in min weighted_score 1)"

definition calculate_similarity :: "(jval \<Rightarrow> string) \<Rightarrow> string \<Rightarrow> dict \<Rightarrow> real" where
  "calculate_similarity render query agent =
     (let text = agent_text render agent;
          scores = [jaccard_similarity query text,
                    keyword_overlap_similarity query text,
                    cosine_similarity_simple query text]
      in combine_scores scores)"

subsection \<open>find\_similar\_agent\<close>

text \<open>
  The loop over \<open>agents\<close>, with the pair \<open>(best_agent, best_score)\<close> as its state.
\<close>

fun scan_agents :: "(jval \<Rightarrow> string) \<Rightarrow> string \<Rightarrow> dict list \<Rightarrow> dict option \<times> real \<Rightarrow> dict option \<times> real" where
  "scan_agents render query [] best = best"
| "scan_agents render query (agent # rest) (best_agent, best_score) =
     (let score = calculate_similarity render query agent
      in if score > best_score then scan_agents render query rest (Some agent, score)
         else scan_agents render query rest (best_agent, best_score))"

text \<open>
  The final test \<^verbatim>\<open>best_score >= self.similarity_threshold and best_agent\<close> takes the truth
  value of the dictionary: it needs an agent, and one that is not the empty dictionary.
\<close>

definition find_similar_agent :: "(jval \<Rightarrow> string) \<Rightarrow> real \<Rightarrow> string \<Rightarrow> dict list \<Rightarrow> dict option" where
  "find_similar_agent render similarity_threshold query_description agents =
     (if agents = [] then None
      else case scan_agents render query_description agents (None, 9 / 100) of
             (best_agent, best_score) \<Rightarrow>
               if best_score \<ge> similarity_threshold \<and> best_agent \<noteq> None \<and> best_agent \<noteq> Some []
               then best_agent else None)"

subsection \<open>get\_similarity\_scores\<close>

record score_entry =
  entry_agent :: dict
  similarity_score :: real
  meets_threshold :: bool

text \<open>
  \<^verbatim>\<open>results.sort(key=..., reverse=True)\<close> is a stable sort in descending order: entries with
  equal scores keep their order.
\<close>

definition get_similarity_scores :: "(jval \<Rightarrow> string) \<Rightarrow> real \<Rightarrow> string \<Rightarrow> dict list \<Rightarrow> score_entry list" where
  "get_similarity_scores render similarity_threshold query_description agents =
     (let results = map (\<lambda>a. let score = calculate_similarity render query_description a
                              in \<lparr>entry_agent = a, similarity_score = score,
                                  meets_threshold = (score \<ge> similarity_threshold)\<rparr>) agents
      in rev (sort_key similarity_score (rev results)))"

section \<open>agent\_storage.py\<close>

subsection \<open>Exceptions and the storage file\<close>

text \<open>
  An exception is a value: a function that can raise returns \<open>Inl\<close> of the exception or
  \<open>Inr\<close> of its result. \<open>IOError\<close> stands for \<^verbatim>\<open>OSError\<close> and its subclasses.
\<close>

datatype error =
    IOError
  | JSONDecodeError
  | UnicodeDecodeError
  | RecursionError
  | TypeError
  | AttributeError
  | IndexError
  | KeyError string
  | ValueError string
  | ClientError string

text \<open>
  \<^verbatim>\<open>try: body except Exception as e: handler(e)\<close>
\<close>

definition try_except :: "error + 'a \<Rightarrow> (error \<Rightarrow> error + 'a) \<Rightarrow> error + 'a" where
  "try_except body handler = (case body of Inl e \<Rightarrow> handler e | Inr v \<Rightarrow> Inr v)"

text \<open>
  The file at \<^verbatim>\<open>self.storage_file\<close>: absent, or present with a content; and whether the
  process may open it for reading and for writing. The content is the document it parses
  to, or it makes \<^verbatim>\<open>json.load\<close> raise: \<^verbatim>\<open>JSONDecodeError\<close> for text that is not JSON
  (\<open>Garbage\<close>), \<^verbatim>\<open>UnicodeDecodeError\<close> for bytes that are not text in the encoding of the
  file (\<open>BadEncoding\<close>), \<^verbatim>\<open>RecursionError\<close> for JSON nested deeper than the parser goes
  (\<open>TooDeep\<close>).
\<close>

datatype fcontent = Garbage | BadEncoding | TooDeep | Doc jval

record fsys =
  content :: "fcontent option"
  readable :: bool
  writable :: bool

text \<open>\<^verbatim>\<open>with open(self.storage_file, 'r') as f: data = json.load(f)\<close>\<close>

definition read_json :: "fsys \<Rightarrow> error + jval" where
  "read_json fs =
     (case content fs of
        None \<Rightarrow> Inl IOError
      | Some c \<Rightarrow>
          if \<not> readable fs then Inl IOError
          else (case c of
                  Garbage \<Rightarrow> Inl JSONDecodeError
                | BadEncoding \<Rightarrow> Inl UnicodeDecodeError
                | TooDeep \<Rightarrow> Inl RecursionError
                | Doc d \<Rightarrow> Inr d))"

text \<open>\<^verbatim>\<open>with open(self.storage_file, 'w') as f: json.dump(data, f, indent=2)\<close>\<close>

definition write_json :: "fsys \<Rightarrow> jval \<Rightarrow> error + fsys" where
  "write_json fs data = (if writable fs then Inr (fs\<lparr>content := Some (Doc data)\<rparr>) else Inl IOError)"

subsection \<open>The operations of Python used on loaded values\<close>

text \<open>\<^verbatim>\<open>p in s\<close> on strings.\<close>

definition is_substring :: "string \<Rightarrow> string \<Rightarrow> bool" where
  "is_substring p s = list_ex (\<lambda>i. take (length p) (drop i s) = p) [0..<Suc (length s)]"

text \<open>\<^verbatim>\<open>k in data\<close> for a string \<open>k\<close>.\<close>

fun py_in :: "string \<Rightarrow> jval \<Rightarrow> error + bool" where
  "py_in k (JObj kvs) = Inr (k \<in> set (map fst kvs))"
| "py_in k (JArr xs) = Inr (list_ex (\<lambda>x. py_eq x (JStr k)) xs)"
| "py_in k (JStr s) = Inr (is_substring k s)"
| "py_in k _ = Inl TypeError"

text \<open>\<^verbatim>\<open>data[k]\<close> and \<^verbatim>\<open>data[k] = v\<close> for a string \<open>k\<close>.\<close>

fun py_getitem :: "jval \<Rightarrow> string \<Rightarrow> error + jval" where
  "py_getitem (JObj kvs) k = (case map_of kvs k of None \<Rightarrow> Inl (KeyError k) | Some v \<Rightarrow> Inr v)"
| "py_getitem _ k = Inl TypeError"

fun py_setitem :: "jval \<Rightarrow> string \<Rightarrow> jval \<Rightarrow> error + jval" where
  "py_setitem (JObj kvs) k v = Inr (JObj (AList.update k v kvs))"
| "py_setitem _ k v = Inl TypeError"

text \<open>Whether a value is a dictionary.\<close>

fun is_dict :: "jval \<Rightarrow> bool" where
  "is_dict (JObj d) = True"
| "is_dict _ = False"

text \<open>\<^verbatim>\<open>x.get(k, default)\<close> on a value that may not be a dictionary.\<close>

fun py_get :: "jval \<Rightarrow> string \<Rightarrow> jval \<Rightarrow> error + jval" where
  "py_get (JObj kvs) k dflt = Inr (dict_get kvs k dflt)"
| "py_get _ k dflt = Inl AttributeError"

text \<open>
  The elements that \<^verbatim>\<open>for x in v\<close> visits: those of a list, the characters of a string,
  the keys of a dictionary. \<open>py_len\<close> is \<^verbatim>\<open>len(v)\<close>.
\<close>

fun py_iter :: "jval \<Rightarrow> error + jval list" where
  "py_iter (JArr xs) = Inr xs"
| "py_iter (JStr s) = Inr (map (\<lambda>c. JStr [c]) s)"
| "py_iter (JObj kvs) = Inr (map JStr (remdups (map fst kvs)))"
| "py_iter _ = Inl TypeError"

fun py_len :: "jval \<Rightarrow> error + nat" where
  "py_len (JArr xs) = Inr (length xs)"
| "py_len (JStr s) = Inr (length s)"
| "py_len (JObj kvs) = Inr (length (remdups (map fst kvs)))"
| "py_len _ = Inl TypeError"

text \<open>\<^verbatim>\<open>xs.append(v)\<close>, with the list returned.\<close>

fun py_append :: "jval \<Rightarrow> jval \<Rightarrow> error + jval" where
  "py_append (JArr xs) v = Inr (JArr (xs @ [v]))"
| "py_append _ v = Inl AttributeError"

text \<open>
  A dictionary whose keys are arbitrary hashable values (\<open>type_counts\<close>): a key is found by
  \<^verbatim>\<open>==\<close>, a new key goes to the end, and a list or a dictionary is not hashable.
\<close>

fun hashable :: "jval \<Rightarrow> bool" where
  "hashable (JArr xs) = False"
| "hashable (JObj kvs) = False"
| "hashable _ = True"

fun pd_lookup :: "(jval \<times> 'v) list \<Rightarrow> jval \<Rightarrow> 'v option" where
  "pd_lookup [] k = None"
| "pd_lookup ((k', v) # rest) k = (if py_eq k' k then Some v else pd_lookup rest k)"

fun pd_update :: "jval \<Rightarrow> 'v \<Rightarrow> (jval \<times> 'v) list \<Rightarrow> (jval \<times> 'v) list" where
  "pd_update k v [] = [(k, v)]"
| "pd_update k v ((k', v') # rest) =
     (if py_eq k' k then (k', v) # rest else (k', v') # pd_update k v rest)"

subsection \<open>\_ensure\_storage\_file\<close>

definition empty_store :: jval where
  "empty_store = JObj [(''agents'', JArr [])]"

text \<open>The body of the \<^verbatim>\<open>try\<close> that validates an existing file.\<close>

definition validate_storage_file :: "fsys \<Rightarrow> error + fsys" where
  "validate_storage_file fs =
     (case read_json fs of
        Inl e \<Rightarrow> Inl e
      | Inr data \<Rightarrow>
          (case py_in ''agents'' data of
             Inl e \<Rightarrow> Inl e
           | Inr True \<Rightarrow> Inr fs
           | Inr False \<Rightarrow>
               (case py_setitem data ''agents'' (JArr []) of
                  Inl e \<Rightarrow> Inl e
                | Inr data' \<Rightarrow> write_json fs data')))"

text \<open>
  The handler is \<^verbatim>\<open>except (json.JSONDecodeError, IOError)\<close>: any other exception leaves
  the function.
\<close>

definition ensure_storage_file :: "fsys \<Rightarrow> error + fsys" where
  "ensure_storage_file fs =
     (if content fs = None then write_json fs empty_store
      else case validate_storage_file fs of
             Inl e \<Rightarrow> if e = JSONDecodeError \<or> e = IOError then write_json fs empty_store else Inl e
           | Inr fs' \<Rightarrow> Inr fs')"

subsection \<open>list\_agents\<close>

definition list_agents :: "fsys \<Rightarrow> jval" where
  "list_agents fs =
     (case (case read_json fs of
              Inl e \<Rightarrow> Inl e
            | Inr data \<Rightarrow> py_get data ''agents'' (JArr [])) of
        Inl e \<Rightarrow> JArr []
      | Inr agents \<Rightarrow> agents)"

subsection \<open>save\_agent\<close>

text \<open>
  The loop \<^verbatim>\<open>for i, existing_agent in enumerate(data["agents"])\<close> that looks for the first
  stored agent of the same name; \<open>name\<close> is \<^verbatim>\<open>agent.get("name")\<close> and \<open>i\<close> the index reached.
\<close>

fun find_existing :: "jval list \<Rightarrow> jval \<Rightarrow> nat \<Rightarrow> error + nat option" where
  "find_existing [] name i = Inr None"
| "find_existing (existing_agent # rest) name i =
     (case py_get existing_agent ''name'' JNull of
        Inl e \<Rightarrow> Inl e
      | Inr n \<Rightarrow> if py_eq n name then Inr (Some i) else find_existing rest name (Suc i))"

text \<open>
  \<^verbatim>\<open>data["agents"][i] = agent\<close>; the index comes from the loop, so it is in range when the
  value is a list. The loop finds no index in a string or in a dictionary.
\<close>

fun py_setindex :: "jval \<Rightarrow> nat \<Rightarrow> jval \<Rightarrow> error + jval" where
  "py_setindex (JArr xs) i v = (if i < length xs then Inr (JArr (xs[i := v])) else Inl IndexError)"
| "py_setindex _ i v = Inl TypeError"

text \<open>The body of the \<^verbatim>\<open>try\<close>: the file after the write.\<close>

definition save_agent_try :: "fsys \<Rightarrow> dict \<Rightarrow> error + fsys" where
  "save_agent_try fs agent =
     (case read_json fs of
        Inl e \<Rightarrow> Inl e
      | Inr data \<Rightarrow>
          (case py_getitem data ''agents'' of
             Inl e \<Rightarrow> Inl e
           | Inr agents \<Rightarrow>
               (case py_iter agents of
                  Inl e \<Rightarrow> Inl e
                | Inr existing \<Rightarrow>
                    (case find_existing existing (dict_get agent ''name'' JNull) 0 of
                       Inl e \<Rightarrow> Inl e
                     | Inr existing_agent_index \<Rightarrow>
                         (case (case existing_agent_index of
                                  Some i \<Rightarrow> py_setindex agents i (JObj agent)
                                | None \<Rightarrow> py_append agents (JObj agent)) of
                            Inl e \<Rightarrow> Inl e
                          | Inr agents' \<Rightarrow>
                              (case py_setitem data ''agents'' agents' of
                                 Inl e \<Rightarrow> Inl e
                               | Inr data' \<Rightarrow> write_json fs data'))))))"

text \<open>The result is the returned truth value and the file system afterwards.\<close>

definition save_agent :: "fsys \<Rightarrow> dict \<Rightarrow> bool \<times> fsys" where
  "save_agent fs agent =
     (case save_agent_try fs agent of Inl e \<Rightarrow> (False, fs) | Inr fs' \<Rightarrow> (True, fs'))"

subsection \<open>get\_storage\_stats\<close>

text \<open>
  The report, without the path of the file; \<open>stats_error\<close> is the exception whose text the
  failure report carries under \<^verbatim>\<open>"error"\<close>.
\<close>

record stats =
  total_agents :: nat
  agents_by_type :: "(jval \<times> nat) list"
  file_exists :: bool
  stats_error :: "error option"

text \<open>The counting loop, with \<open>type_counts\<close> as its state.\<close>

fun count_types :: "jval list \<Rightarrow> (jval \<times> nat) list \<Rightarrow> error + (jval \<times> nat) list" where
  "count_types [] type_counts = Inr type_counts"
| "count_types (agent # rest) type_counts =
     (case py_get agent ''task_type'' (JStr ''unknown'') of
        Inl e \<Rightarrow> Inl e
      | Inr task_type \<Rightarrow>
          if \<not> hashable task_type then Inl TypeError
          else count_types rest
                 (pd_update task_type
                    ((case pd_lookup type_counts task_type of None \<Rightarrow> 0 | Some n \<Rightarrow> n) + 1)
                    type_counts))"

definition get_storage_stats_try :: "fsys \<Rightarrow> error + stats" where
  "get_storage_stats_try fs =
     (let agents = list_agents fs
      in case py_iter agents of
           Inl e \<Rightarrow> Inl e
         | Inr xs \<Rightarrow>
             (case count_types xs [] of
                Inl e \<Rightarrow> Inl e
              | Inr type_counts \<Rightarrow>
                  (case py_len agents of
                     Inl e \<Rightarrow> Inl e
                   | Inr n \<Rightarrow>
                       Inr \<lparr>total_agents = n, agents_by_type = type_counts,
                            file_exists = (content fs \<noteq> None), stats_error = None\<rparr>)))"

definition get_storage_stats :: "fsys \<Rightarrow> stats" where
  "get_storage_stats fs =
     (case get_storage_stats_try fs of
        Inl e \<Rightarrow> \<lparr>total_agents = 0, agents_by_type = [], file_exists = False, stats_error = Some e\<rparr>
      | Inr report \<Rightarrow> report)"

section \<open>master\_agent.py\<close>

subsection \<open>The model client and the environment\<close>

text \<open>
  Every call of \<^verbatim>\<open>self.client.models.generate_content\<close> passes one of four prompts, each a
  fixed text around the fields listed here. The call raises, or returns a response whose
  \<^verbatim>\<open>text\<close> is \<^verbatim>\<open>None\<close> or a string.
\<close>

datatype prompt =
    AnalysisPrompt string
  | CreationPrompt string string string
  | DelegationPrompt string string string string
  | DirectPrompt string

datatype response = Raises error | Response "string option"

text \<open>
  What the orchestrator takes from outside: the client, \<^verbatim>\<open>json.loads\<close>, the rendering
  \<^verbatim>\<open>str(v)\<close> of a value that is not a string, and the text \<^verbatim>\<open>str(e)\<close> of an exception.
\<close>

record env =
  env_generate :: "prompt \<Rightarrow> response"
  env_loads :: "string \<Rightarrow> error + jval"
  env_render :: "jval \<Rightarrow> string"
  env_describe :: "error \<Rightarrow> string"

text \<open>
  \<^verbatim>\<open>if response.text:\<close> holds for a text that is a non-empty string; \<open>the text\<close> is read
  only where it holds.
\<close>

fun has_text :: "string option \<Rightarrow> bool" where
  "has_text None = False"
| "has_text (Some t) = (t \<noteq> [])"

text \<open>The threshold of \<^verbatim>\<open>SimilaritySearch()\<close>, constructed without an argument.\<close>

definition default_threshold :: real where
  "default_threshold = 9 / 100"

subsection \<open>\_analyze\_task\<close>

definition fallback_analysis :: jval where
  "fallback_analysis =
     JObj [(''task_type'', JStr ''general''),
           (''agent_description'', JStr ''General purpose assistant''),
           (''complexity'', JStr ''simple''),
           (''requires_delegation'', JBool False)]"

definition analyze_task_try :: "env \<Rightarrow> string \<Rightarrow> error + jval" where
  "analyze_task_try env user_prompt =
     (case env_generate env (AnalysisPrompt user_prompt) of
        Raises e \<Rightarrow> Inl e
      | Response text \<Rightarrow>
          if has_text text then env_loads env (the text)
          else Inl (ValueError ''Empty response from analysis''))"

definition analyze_task :: "env \<Rightarrow> string \<Rightarrow> error + jval" where
  "analyze_task env user_prompt =
     try_except (analyze_task_try env user_prompt) (\<lambda>e. Inr fallback_analysis)"

subsection \<open>\_create\_new\_agent\<close>

definition creation_prompt :: "env \<Rightarrow> dict \<Rightarrow> prompt" where
  "creation_prompt env task_analysis =
     CreationPrompt
       (py_format (env_render env) (dict_get task_analysis ''task_type'' (JStr ''general'')))
       (py_format (env_render env) (dict_get task_analysis ''agent_description'' (JStr ''General assistant'')))
       (py_format (env_render env) (dict_get task_analysis ''complexity'' (JStr ''simple'')))"

text \<open>\<^verbatim>\<open>agent_data['created_by'] = 'MasterAgent'; return agent_data\<close>\<close>

fun set_created_by :: "jval \<Rightarrow> error + dict" where
  "set_created_by (JObj kvs) = Inr (AList.update ''created_by'' (JStr ''MasterAgent'') kvs)"
| "set_created_by _ = Inl TypeError"

definition fallback_agent :: "env \<Rightarrow> dict \<Rightarrow> dict" where
  "fallback_agent env task_analysis =
     [(''name'', JStr (py_format (env_render env) (dict_get task_analysis ''task_type'' (JStr ''General''))
                       @ ''Agent'')),
      (''description'', dict_get task_analysis ''agent_description'' (JStr ''General purpose assistant'')),
      (''system_prompt'',
         JStr (''You are a helpful assistant specializing in ''
               @ py_format (env_render env) (dict_get task_analysis ''task_type'' (JStr ''general tasks''))
               @ ''.'')),
      (''task_type'', dict_get task_analysis ''task_type'' (JStr ''general'')),
      (''created_by'', JStr ''MasterAgent'')]"

definition create_new_agent_try :: "env \<Rightarrow> dict \<Rightarrow> error + dict" where
  "create_new_agent_try env task_analysis =
     (case env_generate env (creation_prompt env task_analysis) of
        Raises e \<Rightarrow> Inl e
      | Response text \<Rightarrow>
          if has_text text
          then (case env_loads env (the text) of
                  Inl e \<Rightarrow> Inl e
                | Inr agent_data \<Rightarrow> set_created_by agent_data)
          else Inl (ValueError ''Empty response from agent creation''))"

definition create_new_agent :: "env \<Rightarrow> dict \<Rightarrow> error + dict" where
  "create_new_agent env task_analysis =
     try_except (create_new_agent_try env task_analysis) (\<lambda>e. Inr (fallback_agent env task_analysis))"

subsection \<open>\_delegate\_task and \_handle\_directly\<close>

text \<open>\<open>_delegate_task\<close> also receives the task analysis and makes no use of it.\<close>

definition delegation_prompt :: "env \<Rightarrow> dict \<Rightarrow> string \<Rightarrow> prompt" where
  "delegation_prompt env agent user_prompt =
     DelegationPrompt
       (py_format (env_render env) (dict_get agent ''system_prompt'' (JStr '''')))
       (py_format (env_render env) (dict_get agent ''name'' (JStr ''SpecializedAgent'')))
       (py_format (env_render env) (dict_get agent ''description'' (JStr '''')))
       user_prompt"

definition delegate_task_try :: "env \<Rightarrow> dict \<Rightarrow> string \<Rightarrow> error + string" where
  "delegate_task_try env agent user_prompt =
     (case env_generate env (delegation_prompt env agent user_prompt) of
        Raises e \<Rightarrow> Inl e
      | Response text \<Rightarrow>
          if has_text text then Inr (the text)
          else Inr ''The specialized agent was unable to provide a response.'')"

definition delegate_task :: "env \<Rightarrow> dict \<Rightarrow> string \<Rightarrow> error + string" where
  "delegate_task env agent user_prompt =
     try_except (delegate_task_try env agent user_prompt)
       (\<lambda>e. Inr (''Error occurred while delegating to ''
                  @ py_format (env_render env) (dict_get agent ''name'' JNull)
                  @ '': '' @ env_describe env e))"

definition handle_directly_try :: "env \<Rightarrow> string \<Rightarrow> error + string" where
  "handle_directly_try env user_prompt =
     (case env_generate env (DirectPrompt user_prompt) of
        Raises e \<Rightarrow> Inl e
      | Response text \<Rightarrow>
          if has_text text then Inr (the text)
          else Inr ''I'm unable to process your request at the moment.'')"

definition handle_directly :: "env \<Rightarrow> string \<Rightarrow> error + string" where
  "handle_directly env user_prompt =
     try_except (handle_directly_try env user_prompt)
       (\<lambda>e. Inr (''I encountered an error: '' @ env_describe env e))"

subsection \<open>\_find\_or\_create\_agent\<close>

text \<open>
  The call \<^verbatim>\<open>find_similar_agent(agent_description, self.agent_storage.list_agents())\<close> on
  values of any type. A listing without truth value gives \<^verbatim>\<open>None\<close> at once. Otherwise the
  loop runs over the elements of the listing, and raises \<^verbatim>\<open>AttributeError\<close> at an element
  that is no dictionary (\<^verbatim>\<open>agent.get\<close>) or when the description is no string
  (\<^verbatim>\<open>text.lower()\<close>); nothing is changed before it raises.
\<close>

fun the_dict :: "jval \<Rightarrow> dict" where
  "the_dict (JObj d) = d"
| "the_dict _ = []"

definition find_similar_agent_any :: "(jval \<Rightarrow> string) \<Rightarrow> real \<Rightarrow> jval \<Rightarrow> jval \<Rightarrow> error + dict option" where
  "find_similar_agent_any render similarity_threshold query_description agents =
     (if \<not> truthy agents then Inr None
      else case py_iter agents of
             Inl e \<Rightarrow> Inl e
           | Inr xs \<Rightarrow>
               (case query_description of
                  JStr q \<Rightarrow>
                    if list_all is_dict xs
                    then Inr (find_similar_agent render similarity_threshold q (map the_dict xs))
                    else Inl AttributeError
                | _ \<Rightarrow> Inl AttributeError))"

text \<open>\<^verbatim>\<open>if agent:\<close> for an optional dictionary, and \<^verbatim>\<open>agent['name']\<close>.\<close>

fun truthy_agent :: "dict option \<Rightarrow> bool" where
  "truthy_agent None = False"
| "truthy_agent (Some d) = (d \<noteq> [])"

definition name_item :: "dict \<Rightarrow> error + jval" where
  "name_item d = (case map_of d ''name'' of None \<Rightarrow> Inl (KeyError ''name'') | Some v \<Rightarrow> Inr v)"

text \<open>
  The result is the exception raised or the agent returned, and the file system afterwards:
  a new agent is saved before its name is read.
\<close>

definition find_or_create_agent :: "env \<Rightarrow> fsys \<Rightarrow> jval \<Rightarrow> (error + dict option) \<times> fsys" where
  "find_or_create_agent env fs task_analysis =
     (case py_get task_analysis ''requires_delegation'' (JBool False) of
        Inl e \<Rightarrow> (Inl e, fs)
      | Inr requires_delegation \<Rightarrow>
          if \<not> truthy requires_delegation then (Inr None, fs)
          else
            (case find_similar_agent_any (env_render env) default_threshold
                    (dict_get (the_dict task_analysis) ''agent_description'' (JStr ''''))
                    (list_agents fs) of
               Inl e \<Rightarrow> (Inl e, fs)
             | Inr existing_agent \<Rightarrow>
                 if truthy_agent existing_agent
                 then (case name_item (the existing_agent) of
                         Inl e \<Rightarrow> (Inl e, fs)
                       | Inr n \<Rightarrow> (Inr existing_agent, fs))
                 else
                   (case create_new_agent env (the_dict task_analysis) of
                      Inl e \<Rightarrow> (Inl e, fs)
                    | Inr new_agent \<Rightarrow>
                        if new_agent \<noteq> []
                        then (case save_agent fs new_agent of
                                (saved, fs') \<Rightarrow>
                                  (case name_item new_agent of
                                     Inl e \<Rightarrow> (Inl e, fs')
                                   | Inr n \<Rightarrow> (Inr (Some new_agent), fs')))
                        else (Inr (Some new_agent), fs))))"

subsection \<open>process\_request\<close>

text \<open>The body of the \<^verbatim>\<open>try\<close>.\<close>

definition process_request_try :: "env \<Rightarrow> fsys \<Rightarrow> string \<Rightarrow> (error + string) \<times> fsys" where
  "process_request_try env fs request =
     (case analyze_task env request of
        Inl e \<Rightarrow> (Inl e, fs)
      | Inr task_analysis \<Rightarrow>
          (case find_or_create_agent env fs task_analysis of
             (Inl e, fs') \<Rightarrow> (Inl e, fs')
           | (Inr agent, fs') \<Rightarrow>
               if truthy_agent agent
               then (case name_item (the agent) of
                       Inl e \<Rightarrow> (Inl e, fs')
                     | Inr n \<Rightarrow> (delegate_task env (the agent) request, fs'))
               else (handle_directly env request, fs')))"

definition process_request :: "env \<Rightarrow> fsys \<Rightarrow> string \<Rightarrow> (error + string) \<times> fsys" where
  "process_request env fs request =
     (case process_request_try env fs request of
        (response, fs') \<Rightarrow>
          (try_except response
             (\<lambda>e. Inr (''I encountered an error while processing your request: '' @ env_describe env e)),
           fs'))"

section \<open>Auxiliary notions for the proofs\<close>

subsection \<open>The shape of a normalized text\<close>

text \<open>The characters \<^verbatim>\<open>[a-z0-9]\<close>.\<close>

definition low_alnum :: "char \<Rightarrow> bool" where
  "low_alnum c = (let n = (of_char c :: nat) in (97 \<le> n \<and> n \<le> 122) \<or> (48 \<le> n \<and> n \<le> 57))"

text \<open>
  \<open>norm_form\<close>: words over \<^verbatim>\<open>[a-z0-9]\<close> separated by exactly one space, with no space at
  either end. \<open>coll_form\<close>: the same characters, no two spaces in a row, spaces at the ends
  allowed.
\<close>

fun norm_form :: "string \<Rightarrow> bool" where
  "norm_form [] = True"
| "norm_form [c] = low_alnum c"
| "norm_form (c # d # cs) =
     (low_alnum c \<and> (if d = CHR '' '' then cs \<noteq> [] \<and> norm_form cs else norm_form (d # cs)))"

fun coll_form :: "string \<Rightarrow> bool" where
  "coll_form [] = True"
| "coll_form (c # cs) =
     ((low_alnum c \<or> c = CHR '' '' \<and> (case cs of [] \<Rightarrow> True | d # _ \<Rightarrow> d \<noteq> CHR '' '')) \<and>
      coll_form cs)"

subsection \<open>The cosine of two term-frequency vectors, as the specification words it\<close>

text \<open>
  The vocabulary is the set of the words of both token lists; each text has the vector of its
  word counts over the vocabulary; the score is the dot product over the product of the
  Euclidean norms, and 0 when a norm is 0.
\<close>

abbreviation words_of :: "string \<Rightarrow> string list" where
  "words_of text \<equiv> py_split (normalize_text text)"

definition tf_dot :: "string list \<Rightarrow> string list \<Rightarrow> int" where
  "tf_dot words1 words2 =
     (\<Sum>w \<in> set words1 \<union> set words2. int (count_list words1 w) * int (count_list words2 w))"

definition tf_norm :: "string set \<Rightarrow> string list \<Rightarrow> real" where
  "tf_norm vocab ws = sqrt (real_of_int (\<Sum>w \<in> vocab. int (count_list ws w) * int (count_list ws w)))"

definition cosine_spec :: "string list \<Rightarrow> string list \<Rightarrow> real" where
  "cosine_spec words1 words2 =
     (let vocab = set words1 \<union> set words2
      in if tf_norm vocab words1 = 0 \<or> tf_norm vocab words2 = 0 then 0
         else real_of_int (tf_dot words1 words2) / (tf_norm vocab words1 * tf_norm vocab words2))"

subsection \<open>Stored records\<close>

text \<open>
  \<open>has_name n x\<close>: the record \<open>x\<close> has the name
  \<open>n\<close>, as \<open>save_agent\<close> compares names. \<open>task_type_absent x\<close>: the record has no
  \<^verbatim>\<open>task_type\<close> key. \<open>has_task_type k x\<close>: the record has the key, with a value equal to
  \<open>k\<close>. \<open>scalar_task_type x\<close>: the value under the key, if any, is hashable.
\<close>

fun has_name :: "jval \<Rightarrow> jval \<Rightarrow> bool" where
  "has_name n (JObj d) = py_eq (dict_get d ''name'' JNull) n"
| "has_name n _ = False"

fun task_type_absent :: "jval \<Rightarrow> bool" where
  "task_type_absent (JObj d) = (map_of d ''task_type'' = None)"
| "task_type_absent _ = False"

fun has_task_type :: "jval \<Rightarrow> jval \<Rightarrow> bool" where
  "has_task_type k (JObj d) = (case map_of d ''task_type'' of None \<Rightarrow> False | Some t \<Rightarrow> py_eq t k)"
| "has_task_type k _ = False"

fun scalar_task_type :: "jval \<Rightarrow> bool" where
  "scalar_task_type (JObj d) = (case map_of d ''task_type'' of None \<Rightarrow> True | Some t \<Rightarrow> hashable t)"
| "scalar_task_type _ = False"

text \<open>The count that a report gives for a task type.\<close>

definition count_under :: "stats \<Rightarrow> jval \<Rightarrow> nat" where
  "count_under report k = (case pd_lookup (agents_by_type report) k of None \<Rightarrow> 0 | Some n \<Rightarrow> n)"

text \<open>
  For the counting loop: \<open>keys_ok\<close> says that every key of \<open>type_counts\<close> is hashable,
  \<open>cnt\<close> is \<^verbatim>\<open>type_counts.get(k, 0)\<close>, and \<open>task_type_of\<close> is the key under which the loop
  counts a record.
\<close>

definition keys_ok :: "(jval \<times> nat) list \<Rightarrow> bool" where
  "keys_ok tc = (\<forall>k\<in>set (map fst tc). hashable k)"

definition cnt :: "(jval \<times> nat) list \<Rightarrow> jval \<Rightarrow> nat" where
  "cnt tc k = (case pd_lookup tc k of None \<Rightarrow> 0 | Some n \<Rightarrow> n)"

fun task_type_of :: "jval \<Rightarrow> jval" where
  "task_type_of (JObj d) = dict_get d ''task_type'' (JStr ''unknown'')"
| "task_type_of _ = JNull"

subsection \<open>Failed calls of the model client\<close>

text \<open>
  \<open>call_failed\<close>: the call raises or its response has no text. \<open>json_call_failed\<close>: the
  same, or the text is not JSON.
\<close>

definition call_failed :: "env \<Rightarrow> prompt \<Rightarrow> bool" where
  "call_failed env p =
     (case env_generate env p of Raises e \<Rightarrow> True | Response text \<Rightarrow> \<not> has_text text)"

definition json_call_failed :: "env \<Rightarrow> prompt \<Rightarrow> bool" where
  "json_call_failed env p =
     (case env_generate env p of
        Raises e \<Rightarrow> True
      | Response text \<Rightarrow> \<not> has_text text \<or> isl (env_loads env (the text)))"

section \<open>Properties of the text normalization\<close>

lemma word_lower: "is_word_char (lower_char c) \<Longrightarrow> low_alnum (lower_char c)"
  by (auto simp: is_word_char_def lower_char_def low_alnum_def Let_def split: if_splits)

lemma low_alnum_fix: "low_alnum c \<Longrightarrow> lower_char c = c \<and> is_word_char c \<and> \<not> py_isspace c"
  by (auto simp: is_word_char_def lower_char_def low_alnum_def py_isspace_def Let_def)

lemma space_fix: "lower_char (CHR '' '') = CHR '' '' \<and> py_isspace (CHR '' '') \<and> \<not> low_alnum (CHR '' '')"
  by (simp add: lower_char_def py_isspace_def low_alnum_def)

lemma norm_form_chars: "norm_form s \<Longrightarrow> c \<in> set s \<Longrightarrow> low_alnum c \<or> c = CHR '' ''"
  by (induction s rule: norm_form.induct) (auto split: if_splits)

lemma norm_form_hd: "norm_form (c # cs) \<Longrightarrow> low_alnum c"
  by (cases cs) auto

lemma norm_form_lower: "norm_form s \<Longrightarrow> map lower_char s = s"
  by (rule map_idI) (use norm_form_chars low_alnum_fix space_fix in blast)

lemma norm_form_special: "norm_form s \<Longrightarrow> sub_special s = s"
  unfolding sub_special_def
  by (rule map_idI) (use norm_form_chars low_alnum_fix space_fix in auto)

lemma norm_form_spaces: "norm_form s \<Longrightarrow> sub_spaces s = s"
proof (induction s rule: norm_form.induct)
  case (3 c d cs)
  show ?case
  proof (cases "d = CHR '' ''")
    case True
    with 3 obtain e es where cs: "cs = e # es" by (cases cs) auto
    from 3 True cs have "low_alnum e" using norm_form_hd by auto
    with 3 True cs show ?thesis by (simp add: low_alnum_fix space_fix)
  next
    case False
    with 3 show ?thesis by (simp add: low_alnum_fix)
  qed
qed (simp_all add: low_alnum_fix)

lemma norm_form_rstrip: "norm_form s \<Longrightarrow> rstrip s = s"
proof (induction s rule: norm_form.induct)
  case (3 c d cs)
  then show ?case by (auto simp: low_alnum_fix Let_def split: if_splits)
qed (simp_all add: low_alnum_fix)

lemma norm_form_fixed:
  assumes "norm_form s"
  shows "normalize_text s = s"
proof -
  have "dropWhile py_isspace s = s"
    using assms by (cases s) (auto simp: low_alnum_fix dest: norm_form_hd)
  with assms show ?thesis
    by (simp add: normalize_text_def py_strip_def norm_form_lower norm_form_special
        norm_form_spaces norm_form_rstrip)
qed

lemma sub_spaces_hd: "sub_spaces s = d # ds \<Longrightarrow> d = CHR '' '' \<Longrightarrow> s \<noteq> [] \<and> py_isspace (hd s)"
  by (cases s) (auto simp: space_fix split: if_splits)

lemma coll_form_sub_spaces:
  "\<forall>c\<in>set s. low_alnum c \<or> py_isspace c \<Longrightarrow> coll_form (sub_spaces s)"
proof (induction s rule: sub_spaces.induct)
  case (2 c cs)
  show ?case
  proof (cases "py_isspace c")
    case True
    have all: "\<forall>c\<in>set (dropWhile py_isspace cs). low_alnum c \<or> py_isspace c"
      using 2(3) by (auto dest: set_dropWhileD)
    have hd: "dropWhile py_isspace cs \<noteq> [] \<Longrightarrow> \<not> py_isspace (hd (dropWhile py_isspace cs))"
      using hd_dropWhile by blast
    have "case sub_spaces (dropWhile py_isspace cs) of [] \<Rightarrow> True | d # _ \<Rightarrow> d \<noteq> CHR '' ''"
      using hd sub_spaces_hd by (fastforce split: list.splits)
    with True 2(1)[OF True all] show ?thesis by simp
  next
    case False
    with 2 show ?thesis by auto
  qed
qed simp

lemma rstrip_hd: "rstrip s = d # ds \<Longrightarrow> \<exists>es. s = d # es"
  by (cases s) (simp_all add: Let_def split: if_splits)

lemma rstrip_coll: "coll_form s \<Longrightarrow> coll_form (rstrip s)"
proof (induction s)
  case Nil
  then show ?case by simp
next
  case (Cons c cs)
  then have ih: "coll_form (rstrip cs)" by simp
  show ?case
  proof (cases "rstrip cs")
    case Nil
    with Cons.prems show ?thesis by (auto simp: Let_def)
  next
    case (Cons d ds)
    then obtain es where "cs = d # es" using rstrip_hd by blast
    with Cons Cons.prems ih show ?thesis by (simp add: Let_def)
  qed
qed

lemma stage_chars: "\<forall>c\<in>set (sub_special (map lower_char t)). low_alnum c \<or> py_isspace c"
  using word_lower by (auto simp: sub_special_def space_fix)

lemma rstrip_last: "rstrip s \<noteq> [] \<Longrightarrow> \<not> py_isspace (last (rstrip s))"
  by (induction s) (auto simp: Let_def)

lemma coll_form_norm_aux:
  "coll_form s \<Longrightarrow> s \<noteq> [] \<Longrightarrow> low_alnum (hd s) \<Longrightarrow> \<not> py_isspace (last s) \<Longrightarrow> norm_form s"
proof (induction s rule: norm_form.induct)
  case 1
  then show ?case by simp
next
  case (2 c)
  then show ?case by simp
next
  case (3 c d cs)
  show ?case
  proof (cases "d = CHR '' ''")
    case True
    have "cs \<noteq> []"
    proof
      assume "cs = []"
      with True "3.prems"(4) show False by (simp add: space_fix)
    qed
    then obtain e es where cs: "cs = e # es" by (cases cs) auto
    from "3.prems"(1) True cs have "e \<noteq> CHR '' ''" by (simp add: space_fix)
    moreover from "3.prems"(1) cs have "low_alnum e \<or> e = CHR '' ''" by auto
    ultimately have e: "low_alnum e" by simp
    from "3.prems"(1) have "coll_form cs" by simp
    moreover from "3.prems"(4) cs have "\<not> py_isspace (last cs)" by simp
    moreover note cs
    ultimately have "norm_form cs" using "3.IH"(1)[OF True] e by simp
    moreover from "3.prems"(3) have "low_alnum c" by simp
    ultimately show ?thesis using True cs by simp
  next
    case False
    with "3.prems"(1) have d: "low_alnum d" by simp
    from "3.prems"(1,4) have "coll_form (d # cs)" "\<not> py_isspace (last (d # cs))" by simp_all
    with "3.IH"(2)[OF False] d have "norm_form (d # cs)" by simp
    moreover from "3.prems"(3) have "low_alnum c" by simp
    ultimately show ?thesis using False by simp
  qed
qed

lemma coll_form_norm:
  "coll_form (c # cs) \<Longrightarrow> low_alnum c \<Longrightarrow> \<not> py_isspace (last (c # cs)) \<Longrightarrow> norm_form (c # cs)"
  by (rule coll_form_norm_aux) simp_all

lemma norm_form_strip:
  assumes "coll_form s" and "s \<noteq> [] \<longrightarrow> \<not> py_isspace (last s)"
  shows "norm_form (dropWhile py_isspace s)"
proof (cases s)
  case Nil
  then show ?thesis by simp
next
  case (Cons c cs)
  show ?thesis
  proof (cases "py_isspace c")
    case False
    with assms Cons have "low_alnum c" by (auto simp: space_fix)
    with assms Cons False show ?thesis using coll_form_norm by simp
  next
    case True
    with assms Cons have c: "c = CHR '' ''" by (auto simp: low_alnum_fix)
    with assms Cons obtain d ds where cs: "cs = d # ds" by (cases cs) (auto simp: space_fix)
    with assms Cons c have d: "low_alnum d" by auto
    from assms Cons cs have "coll_form (d # ds)" "\<not> py_isspace (last (d # ds))" by auto
    with d have "norm_form (d # ds)" using coll_form_norm by blast
    with Cons cs True d show ?thesis by (simp add: low_alnum_fix)
  qed
qed

lemma normalize_norm_form: "norm_form (normalize_text t)"
  unfolding normalize_text_def py_strip_def
  by (intro norm_form_strip rstrip_coll coll_form_sub_spaces stage_chars impI rstrip_last)

lemma normalize_idem: "normalize_text (normalize_text t) = normalize_text t"
  by (rule norm_form_fixed[OF normalize_norm_form])

lemma lower_char_idem: "lower_char (lower_char c) = lower_char c"
  by (simp add: lower_char_def Let_def)

lemma lower_not_word:
  "\<not> is_word_char c \<Longrightarrow> \<not> py_isspace c \<Longrightarrow> \<not> is_word_char (lower_char c) \<and> \<not> py_isspace (lower_char c)"
  by (auto simp: lower_char_def Let_def is_word_char_def py_isspace_def)

lemma lower_space: "lower_char (CHR '' '') = CHR '' ''"
  by (simp add: lower_char_def)

lemma sub_special_lower:
  "sub_special (map lower_char (sub_special x)) = sub_special (map lower_char x)"
proof (induction x)
  case Nil
  then show ?case by (simp add: sub_special_def)
next
  case (Cons c cs)
  then have ih: "sub_special (map lower_char (sub_special cs)) = sub_special (map lower_char cs)" .
  show ?case
  proof (cases "is_word_char c \<or> py_isspace c")
    case True
    with ih show ?thesis by (simp add: sub_special_def)
  next
    case False
    then have "\<not> is_word_char (lower_char c) \<and> \<not> py_isspace (lower_char c)"
      using lower_not_word by simp
    with False ih show ?thesis by (simp add: sub_special_def lower_space)
  qed
qed

lemma normalize_case_insensitive: "normalize_text (map lower_char x) = normalize_text x"
  by (simp add: normalize_text_def lower_char_idem comp_def)

lemma normalize_punct_insensitive: "normalize_text (sub_special x) = normalize_text x"
  by (simp add: normalize_text_def sub_special_lower)

lemma sub_special_lowered:
  "sub_special (map lower_char x) =
     map (\<lambda>c. if low_alnum c \<or> py_isspace c then c else CHR '' '') (map lower_char x)"
proof -
  have "is_word_char (lower_char c) \<longleftrightarrow> low_alnum (lower_char c)" for c
    using word_lower low_alnum_fix by blast
  then show ?thesis by (simp add: sub_special_def)
qed

text \<open>
  Claim C9. Normalizing twice gives the same text as normalizing once. Neither the case of the
  letters nor the choice of punctuation matters: lower-casing the input first, or replacing
  its special characters by spaces first, does not change the result; in particular
  \<^verbatim>\<open>"Hello, World!"\<close> and \<^verbatim>\<open>"hello world"\<close> normalize to the same text. The function
  lower-cases, replaces the characters outside \<^verbatim>\<open>[a-z0-9\s]\<close> by a space, collapses the runs
  of whitespace and trims: the result consists of words over \<^verbatim>\<open>[a-z0-9]\<close> with one space
  between two words and none at the ends.
\<close>

theorem normalize_text_idempotent:
  "normalize_text (normalize_text x) = normalize_text x \<and>
   normalize_text (map lower_char x) = normalize_text x \<and>
   normalize_text (sub_special x) = normalize_text x \<and>
   normalize_text ''Hello, World!'' = normalize_text ''hello world'' \<and>
   normalize_text ''Hello, World!'' = ''hello world'' \<and>
   normalize_text x =
     py_strip (sub_spaces (map (\<lambda>c. if low_alnum c \<or> py_isspace c then c else CHR '' '')
       (map lower_char x))) \<and>
   norm_form (normalize_text x)"
proof -
  have a: "normalize_text ''Hello, World!'' = ''hello world''" by code_simp
  have b: "normalize_text ''hello world'' = ''hello world''" by code_simp
  have c: "normalize_text ''Hello, World!'' = normalize_text ''hello world''"
    by (simp only: a b)
  have d: "normalize_text x =
     py_strip (sub_spaces (map (\<lambda>c. if low_alnum c \<or> py_isspace c then c else CHR '' '')
       (map lower_char x)))"
    by (simp only: normalize_text_def sub_special_lowered)
  show ?thesis
    by (intro conjI) (rule normalize_idem normalize_case_insensitive normalize_punct_insensitive
        a c d normalize_norm_form)+
qed

section \<open>Properties of the similarity score\<close>

lemma dot_map: "dot (map f V) (map g V) = sum_list (map (\<lambda>w. f w * g w) V)"
  by (simp add: dot_def map2_map_map)

lemma norm_vec_map: "norm_vec (map f V) = sqrt (real_of_int (sum_list (map (\<lambda>w. f w * f w) V)))"
  by (simp add: norm_vec_def comp_def)

lemma sum_list_remdups: "sum_list (map f (remdups xs)) = sum f (set xs)"
  using sum_list_distinct_conv_sum_set[of "remdups xs" f] by simp

lemma tf_norm_zero_iff:
  assumes "set ws \<subseteq> V" "finite V"
  shows "tf_norm V ws = 0 \<longleftrightarrow> ws = []"
proof
  assume z: "tf_norm V ws = 0"
  show "ws = []"
  proof (rule ccontr)
    assume "ws \<noteq> []"
    then obtain w where w: "w \<in> set ws" by (cases ws) auto
    then have c: "0 < count_list ws w" using count_list_0_iff[of ws w] by simp
    define S where "S = (\<Sum>w\<in>V. int (count_list ws w) * int (count_list ws w))"
    from z have "sqrt (real_of_int S) = 0" by (simp only: tf_norm_def S_def)
    then have "S = 0" by simp
    then have "(\<Sum>w\<in>V. int (count_list ws w) * int (count_list ws w)) = 0"
      by (simp only: S_def)
    moreover have "\<forall>w\<in>V. 0 \<le> int (count_list ws w) * int (count_list ws w)" by simp
    ultimately have "\<forall>w\<in>V. int (count_list ws w) * int (count_list ws w) = 0"
      using assms(2) by (simp add: sum_nonneg_eq_0_iff)
    with w assms(1) c show False by auto
  qed
next
  assume "ws = []"
  then show "tf_norm V ws = 0" by (simp add: tf_norm_def)
qed

lemma cosine_code_spec:
  "cosine_similarity_simple text1 text2 =
     (if words_of text1 = [] \<and> words_of text2 = [] then 1
      else cosine_spec (words_of text1) (words_of text2))"
  by (simp add: cosine_similarity_simple_def cosine_spec_def Let_def dot_map norm_vec_map
      sum_list_remdups tf_dot_def tf_norm_def)

text \<open>
  Claim C8, as amended. The cosine metric is 1 when both texts normalize to no tokens.
  Otherwise it is the cosine of the term-frequency vectors over the vocabulary of both token
  lists: the dot product over the product of the Euclidean norms, and 0 when a norm is 0. The
  norm of a text's vector is 0 exactly when the text normalizes to no tokens.
\<close>

theorem cosine_similarity_simple_spec:
  "cosine_similarity_simple text1 text2 =
     (if words_of text1 = [] \<and> words_of text2 = [] then 1
      else cosine_spec (words_of text1) (words_of text2)) \<and>
   (tf_norm (set (words_of text1) \<union> set (words_of text2)) (words_of text1) = 0 \<longleftrightarrow> words_of text1 = []) \<and>
   (tf_norm (set (words_of text1) \<union> set (words_of text2)) (words_of text2) = 0 \<longleftrightarrow> words_of text2 = [])"
  using cosine_code_spec tf_norm_zero_iff by simp

text \<open>
  Claim C8 as stated fails for two texts without tokens: both vectors are empty and have norm
  0, and the result is 1.
\<close>

theorem cosine_both_empty_counterexample:
  "words_of '''' = [] \<and>
   norm_vec (map (\<lambda>word. int (count_list (words_of '''') word)) (remdups (words_of '''' @ words_of ''''))) = 0 \<and>
   cosine_similarity_simple '''' '''' = 1"
proof -
  have w: "words_of '''' = []" by code_simp
  show ?thesis
    unfolding cosine_similarity_simple_def Let_def w by (simp add: norm_vec_def)
qed

text \<open>
  Claim C6. The combined score is the weighted sum of the Jaccard, keyword-overlap and cosine
  metrics with weights 0.4, 0.3 and 0.3, cut off at 1. The cut-off is stated for any three
  sub-scores \<open>j\<close>, \<open>k\<close>, \<open>c\<close>, whatever their size: the result is the smaller of the weighted
  sum and 1, so it never exceeds 1; for the sub-scores 1, 1 and 1.01 the weighted sum is
  above 1 and the result is 1.
\<close>

theorem calculate_similarity_clamped:
  "calculate_similarity render query agent =
     combine_scores [jaccard_similarity query (agent_text render agent),
                     keyword_overlap_similarity query (agent_text render agent),
                     cosine_similarity_simple query (agent_text render agent)] \<and>
   combine_scores [j, k, c] = min (4 / 10 * j + 3 / 10 * k + 3 / 10 * c) 1 \<and>
   combine_scores [j, k, c] \<le> 1 \<and>
   calculate_similarity render query agent \<le> 1 \<and>
   (1 :: real) < 4 / 10 * 1 + 3 / 10 * 1 + 3 / 10 * (101 / 100) \<and>
   combine_scores [1, 1, 101 / 100] = 1"
  by (simp add: calculate_similarity_def combine_scores_def weights_def Let_def)

section \<open>Properties of the matcher\<close>

lemma scan_agents_keep:
  "\<forall>x\<in>set xs. calculate_similarity render q x \<le> s \<Longrightarrow> scan_agents render q xs (b, s) = (b, s)"
  by (induction xs) (auto simp: Let_def)

lemma scan_agents_first_max:
  assumes "i < length xs"
    and "\<forall>j<length xs. calculate_similarity render q (xs ! j) \<le> calculate_similarity render q (xs ! i)"
    and "\<forall>j<i. calculate_similarity render q (xs ! j) < calculate_similarity render q (xs ! i)"
    and "s < calculate_similarity render q (xs ! i)"
  shows "scan_agents render q xs (b, s) = (Some (xs ! i), calculate_similarity render q (xs ! i))"
  using assms
proof (induction xs arbitrary: i b s)
  case Nil
  then show ?case by simp
next
  case (Cons x xs)
  let ?f = "calculate_similarity render q"
  show ?case
  proof (cases i)
    case 0
    have "\<forall>y\<in>set xs. ?f y \<le> ?f x"
    proof
      fix y assume "y \<in> set xs"
      then obtain k where "k < length xs" "xs ! k = y" by (auto simp: in_set_conv_nth)
      with Cons.prems(2)[rule_format, of "Suc k"] 0 show "?f y \<le> ?f x" by simp
    qed
    then have "scan_agents render q xs (Some x, ?f x) = (Some x, ?f x)"
      by (rule scan_agents_keep)
    with 0 Cons.prems(4) show ?thesis by (simp add: Let_def)
  next
    case (Suc k)
    have k: "k < length xs" using Cons.prems(1) Suc by simp
    have mx: "\<forall>j<length xs. ?f (xs ! j) \<le> ?f (xs ! k)"
    proof (intro allI impI)
      fix j assume "j < length xs"
      with Cons.prems(2)[rule_format, of "Suc j"] Suc show "?f (xs ! j) \<le> ?f (xs ! k)" by simp
    qed
    have fst: "\<forall>j<k. ?f (xs ! j) < ?f (xs ! k)"
    proof (intro allI impI)
      fix j assume "j < k"
      with Cons.prems(3)[rule_format, of "Suc j"] Suc show "?f (xs ! j) < ?f (xs ! k)" by simp
    qed
    have x: "?f x < ?f (xs ! k)"
      using Cons.prems(3)[rule_format, of 0] Suc by simp
    have a: "scan_agents render q xs (Some x, ?f x) = (Some (xs ! k), ?f (xs ! k))"
      by (rule Cons.IH[OF k mx fst x])
    have s: "s < ?f (xs ! k)" using Cons.prems(4) Suc by simp
    have b: "scan_agents render q xs (b, s) = (Some (xs ! k), ?f (xs ! k))"
      by (rule Cons.IH[OF k mx fst s])
    from a b Suc show ?thesis by (simp add: Let_def)
  qed
qed

lemma first_max_exists:
  fixes f :: "'a \<Rightarrow> real"
  assumes "xs \<noteq> []"
  shows "\<exists>i<length xs. (\<forall>j<length xs. f (xs ! j) \<le> f (xs ! i)) \<and> (\<forall>j<i. f (xs ! j) < f (xs ! i))"
proof -
  let ?M = "Max (f ` set xs)"
  have fin: "finite (f ` set xs)" and ne: "f ` set xs \<noteq> {}" using assms by auto
  have "?M \<in> f ` set xs" using Max_in[OF fin ne] .
  then obtain i0 where i0: "i0 < length xs" "f (xs ! i0) = ?M"
    by (auto simp: in_set_conv_nth)
  define i where "i = (LEAST i. i < length xs \<and> f (xs ! i) = ?M)"
  have i: "i < length xs \<and> f (xs ! i) = ?M"
    unfolding i_def by (rule LeastI[of _ i0]) (use i0 in simp)
  have le: "\<And>j. j < length xs \<Longrightarrow> f (xs ! j) \<le> ?M"
    using fin by simp
  have "\<forall>j<i. f (xs ! j) < f (xs ! i)"
  proof (intro allI impI)
    fix j assume j: "j < i"
    then have jl: "j < length xs" using i by simp
    have "f (xs ! j) \<noteq> ?M"
    proof
      assume "f (xs ! j) = ?M"
      with jl have "i \<le> j" unfolding i_def by (intro Least_le) simp
      with j show False by simp
    qed
    with le[OF jl] i show "f (xs ! j) < f (xs ! i)" by simp
  qed
  with i le show ?thesis by auto
qed

lemma find_similar_agent_Some_iff:
  "find_similar_agent render thr q agents = Some a \<longleftrightarrow>
     (\<exists>i<length agents. a = agents ! i \<and> a \<noteq> [] \<and>
        (\<forall>j<length agents. calculate_similarity render q (agents ! j) \<le> calculate_similarity render q (agents ! i)) \<and>
        (\<forall>j<i. calculate_similarity render q (agents ! j) < calculate_similarity render q (agents ! i)) \<and>
        9 / 100 < calculate_similarity render q (agents ! i) \<and>
        thr \<le> calculate_similarity render q (agents ! i))"
  (is "?L \<longleftrightarrow> ?R")
proof
  let ?f = "calculate_similarity render q"
  assume L: ?L
  then have ne: "agents \<noteq> []" by (auto simp: find_similar_agent_def)
  from first_max_exists[OF ne, of ?f] obtain i where i: "i < length agents"
    "\<forall>j<length agents. ?f (agents ! j) \<le> ?f (agents ! i)"
    "\<forall>j<i. ?f (agents ! j) < ?f (agents ! i)" by blast
  show ?R
  proof (cases "9 / 100 < ?f (agents ! i)")
    case True
    from scan_agents_first_max[OF i True, of None]
    have "scan_agents render q agents (None, 9 / 100) = (Some (agents ! i), ?f (agents ! i))" .
    with L ne have "a = agents ! i \<and> a \<noteq> [] \<and> thr \<le> ?f (agents ! i)"
      by (auto simp: find_similar_agent_def split: if_splits)
    with i True show ?thesis by blast
  next
    case False
    have "\<forall>x\<in>set agents. ?f x \<le> 9 / 100"
    proof
      fix x assume "x \<in> set agents"
      then obtain k where "k < length agents" "agents ! k = x" by (auto simp: in_set_conv_nth)
      with i(2) False show "?f x \<le> 9 / 100" by fastforce
    qed
    from scan_agents_keep[OF this, of None] L ne show ?thesis
      by (simp add: find_similar_agent_def)
  qed
next
  let ?f = "calculate_similarity render q"
  assume ?R
  then obtain i where i: "i < length agents" "a = agents ! i" "a \<noteq> []"
    "\<forall>j<length agents. ?f (agents ! j) \<le> ?f (agents ! i)"
    "\<forall>j<i. ?f (agents ! j) < ?f (agents ! i)"
    "9 / 100 < ?f (agents ! i)" "thr \<le> ?f (agents ! i)" by blast
  from scan_agents_first_max[OF i(1) i(4) i(5) i(6), of None]
  have "scan_agents render q agents (None, 9 / 100) = (Some (agents ! i), ?f (agents ! i))" .
  with i show ?L by (auto simp: find_similar_agent_def)
qed

lemma find_similar_agent_empty: "find_similar_agent render thr q [] = None"
  by (simp add: find_similar_agent_def)

subsection \<open>Two worked inputs\<close>

lemma poem_text:
  "agent_text render [(''name'', JStr ''PoemAgent''), (''description'', JStr ''writes poems for you''),
      (''task_type'', JStr ''creative'')] = ''writes poems for you creative PoemAgent''"
  by (simp add: agent_text_def dict_get_def py_format_def)

lemma poem_cosine:
  "cosine_similarity_simple ''can you optimize my sql index'' ''writes poems for you creative PoemAgent'' = 1 / 6"
proof -
  let ?w1 = "[''can'', ''you'', ''optimize'', ''my'', ''sql'', ''index'']"
  let ?w2 = "[''writes'', ''poems'', ''for'', ''you'', ''creative'', ''poemagent'']"
  let ?v = "[''can'', ''optimize'', ''my'', ''sql'', ''index'', ''writes'', ''poems'', ''for'', ''you'',
             ''creative'', ''poemagent'']"
  have w1: "py_split (normalize_text ''can you optimize my sql index'') = ?w1" by code_simp
  have w2: "py_split (normalize_text ''writes poems for you creative PoemAgent'') = ?w2" by code_simp
  have v: "remdups (?w1 @ ?w2) = ?v" by code_simp
  have v1: "map (\<lambda>word. int (count_list ?w1 word)) ?v = [1, 1, 1, 1, 1, 0, 0, 0, 1, 0, 0]"
    by code_simp
  have v2: "map (\<lambda>word. int (count_list ?w2 word)) ?v = [0, 0, 0, 0, 0, 1, 1, 1, 1, 1, 1]"
    by code_simp
  have d: "dot [1, 1, 1, 1, 1, 0, 0, 0, 1, 0, 0] [0, 0, 0, 0, 0, 1, 1, 1, 1, 1, 1] = 1"
    by code_simp
  have n1: "norm_vec [1, 1, 1, 1, 1, 0, 0, 0, 1, 0, 0] = sqrt 6" by (simp add: norm_vec_def)
  have n2: "norm_vec [0, 0, 0, 0, 0, 1, 1, 1, 1, 1, 1] = sqrt 6" by (simp add: norm_vec_def)
  show ?thesis
    unfolding cosine_similarity_simple_def Let_def w1 w2 v v1 v2 d n1 n2 by simp
qed

lemma poem_jaccard:
  "jaccard_similarity ''can you optimize my sql index'' ''writes poems for you creative PoemAgent'' = 1 / 11"
  by code_simp

lemma poem_keyword:
  "keyword_overlap_similarity ''can you optimize my sql index'' ''writes poems for you creative PoemAgent'' = 0"
  by code_simp

lemma poem_score:
  "calculate_similarity render ''can you optimize my sql index''
     [(''name'', JStr ''PoemAgent''), (''description'', JStr ''writes poems for you''),
      (''task_type'', JStr ''creative'')] = 19 / 220"
  by (simp add: calculate_similarity_def combine_scores_def weights_def Let_def poem_text poem_cosine
      poem_jaccard poem_keyword)

lemma math_text:
  "agent_text render [(''name'', JStr ''MathAgent''), (''description'', JStr ''math''),
      (''system_prompt'', p)] = ''math  MathAgent''"
  by (simp add: agent_text_def dict_get_def py_format_def)

lemma math_cosine: "cosine_similarity_simple ''math mathagent'' ''math  MathAgent'' = 1"
proof -
  have w1: "py_split (normalize_text ''math mathagent'') = [''math'', ''mathagent'']" by code_simp
  have w2: "py_split (normalize_text ''math  MathAgent'') = [''math'', ''mathagent'']" by code_simp
  have v: "remdups ([''math'', ''mathagent''] @ [''math'', ''mathagent'']) = [''math'', ''mathagent'']"
    by code_simp
  have v1: "map (\<lambda>word. int (count_list [''math'', ''mathagent''] word)) [''math'', ''mathagent''] = [1, 1]"
    by code_simp
  have d: "dot [1, 1] [1, 1] = 2" by code_simp
  have n: "norm_vec [1, 1] = sqrt 2" by (simp add: norm_vec_def)
  show ?thesis
    unfolding cosine_similarity_simple_def Let_def w1 w2 v v1 d n by simp
qed

lemma math_jaccard: "jaccard_similarity ''math mathagent'' ''math  MathAgent'' = 1"
  by code_simp

lemma math_keyword: "keyword_overlap_similarity ''math mathagent'' ''math  MathAgent'' = 1"
  by code_simp

lemma math_score:
  "calculate_similarity render ''math mathagent''
     [(''name'', JStr ''MathAgent''), (''description'', JStr ''math''), (''system_prompt'', p)] = 1"
  by (simp add: calculate_similarity_def combine_scores_def weights_def Let_def math_text math_cosine
      math_jaccard math_keyword)





text \<open>
  Claim C1, evaluated where the code departs from it. The threshold is 0.05 and the only
  record scores 19/220 (about 0.086) for the query: the score is at least the threshold, and
  \<open>get_similarity_scores\<close> reports that the record meets the threshold, yet
  \<open>find_similar_agent\<close> returns no record, because the running best score starts at 0.09.
\<close>

theorem find_similar_agent_low_threshold:
  "5 / 100 \<le> calculate_similarity render ''can you optimize my sql index''
     [(''name'', JStr ''PoemAgent''), (''description'', JStr ''writes poems for you''),
      (''task_type'', JStr ''creative'')] \<and>
   map meets_threshold (get_similarity_scores render (5 / 100) ''can you optimize my sql index''
     [[(''name'', JStr ''PoemAgent''), (''description'', JStr ''writes poems for you''),
       (''task_type'', JStr ''creative'')]]) = [True] \<and>
   find_similar_agent render (5 / 100) ''can you optimize my sql index''
     [[(''name'', JStr ''PoemAgent''), (''description'', JStr ''writes poems for you''),
       (''task_type'', JStr ''creative'')]] = None"
  by (simp add: find_similar_agent_def get_similarity_scores_def poem_score Let_def)




text \<open>
  Claim C10. Whatever the threshold, a record returned by \<open>find_similar_agent\<close> scores
  strictly above 0.09.
\<close>

theorem find_similar_agent_above_floor:
  assumes "find_similar_agent render thr q agents = Some a"
  shows "9 / 100 < calculate_similarity render q a"
  using assms unfolding find_similar_agent_Some_iff by blast

theorem find_similar_agent_above_floor_witness:
  "find_similar_agent (\<lambda>v. []) (1 / 100) ''math mathagent''
     [[(''name'', JStr ''MathAgent''), (''description'', JStr ''math''), (''system_prompt'', JStr ''first'')]] =
   Some [(''name'', JStr ''MathAgent''), (''description'', JStr ''math''), (''system_prompt'', JStr ''first'')] \<and>
   9 / 100 < calculate_similarity (\<lambda>v. []) ''math mathagent''
     [(''name'', JStr ''MathAgent''), (''description'', JStr ''math''), (''system_prompt'', JStr ''first'')]"
proof -
  have h: "find_similar_agent (\<lambda>v. []) (1 / 100) ''math mathagent''
     [[(''name'', JStr ''MathAgent''), (''description'', JStr ''math''), (''system_prompt'', JStr ''first'')]] =
   Some [(''name'', JStr ''MathAgent''), (''description'', JStr ''math''), (''system_prompt'', JStr ''first'')]"
    by (simp add: find_similar_agent_def math_score Let_def)
  from h find_similar_agent_above_floor[OF h] show ?thesis by simp
qed

section \<open>Properties of the storage\<close>

subsection \<open>Loading\<close>

text \<open>
  A file that is not JSON, and a JSON object without the \<^verbatim>\<open>agents\<close> key, are repaired: the
  file then holds a document whose collection is empty, and a second load changes nothing.
\<close>

lemma ensure_storage_file_garbage:
  assumes "content fs = Some Garbage" "writable fs" "readable fs"
  shows "\<exists>fs'. ensure_storage_file fs = Inr fs' \<and> read_json fs' = Inr empty_store \<and>
           list_agents fs' = JArr [] \<and> ensure_storage_file fs' = Inr fs'"
  using assms
  by (simp add: ensure_storage_file_def validate_storage_file_def read_json_def write_json_def
      list_agents_def empty_store_def dict_get_def)

lemma ensure_storage_file_missing_field:
  assumes "content fs = Some (Doc (JObj kvs))" "''agents'' \<notin> set (map fst kvs)"
    "writable fs" "readable fs"
  shows "\<exists>fs'. ensure_storage_file fs = Inr fs' \<and>
           read_json fs' = Inr (JObj (kvs @ [(''agents'', JArr [])])) \<and>
           list_agents fs' = JArr [] \<and> ensure_storage_file fs' = Inr fs'"
proof -
  have u: "AList.update ''agents'' (JArr []) kvs = kvs @ [(''agents'', JArr [])]"
    using assms(2) by (induction kvs) auto
  have n: "map_of kvs ''agents'' = None"
    using assms(2) by (simp add: map_of_eq_None_iff)
  have m: "map_of (kvs @ [(''agents'', JArr [])]) ''agents'' = Some (JArr [])"
    by (simp add: map_add_def n)
  from assms u m show ?thesis
    by (simp add: ensure_storage_file_def validate_storage_file_def read_json_def write_json_def
        list_agents_def dict_get_def)
qed

text \<open>
  A content that \<^verbatim>\<open>json.load\<close> rejects with another exception than \<^verbatim>\<open>JSONDecodeError\<close> is
  not repaired: the exception leaves the function.
\<close>

lemma ensure_storage_file_other_errors:
  assumes "readable fs"
  shows "content fs = Some BadEncoding \<Longrightarrow> ensure_storage_file fs = Inl UnicodeDecodeError"
    and "content fs = Some TooDeep \<Longrightarrow> ensure_storage_file fs = Inl RecursionError"
  using assms
  by (simp_all add: ensure_storage_file_def validate_storage_file_def read_json_def)

text \<open>
  Claim C4, evaluated where the code departs from it. The file holds the JSON document
  \<^verbatim>\<open>[]\<close>: it parses, it has no \<^verbatim>\<open>agents\<close> field, and the assignment
  \<^verbatim>\<open>data["agents"] = []\<close> raises \<^verbatim>\<open>TypeError\<close>, which the handler does not catch: the
  exception reaches the caller and the file is left as it was.
\<close>

theorem ensure_storage_file_top_level_list:
  "read_json \<lparr>content = Some (Doc (JArr [])), readable = True, writable = True\<rparr> = Inr (JArr []) \<and>
   ensure_storage_file \<lparr>content = Some (Doc (JArr [])), readable = True, writable = True\<rparr> =
     Inl TypeError"
  by (simp add: ensure_storage_file_def validate_storage_file_def read_json_def)

subsection \<open>Saving\<close>

lemma find_existing_total:
  "\<forall>x\<in>set xs. is_dict x \<Longrightarrow> \<exists>r. find_existing xs n i = Inr r"
proof (induction xs arbitrary: i)
  case Nil
  then show ?case by simp
next
  case (Cons x xs)
  then obtain d where "x = JObj d" by (cases x) auto
  with Cons show ?case by simp
qed

lemma find_existing_None:
  "find_existing xs n i = Inr None \<Longrightarrow> \<forall>x\<in>set xs. \<not> has_name n x"
proof (induction xs arbitrary: i)
  case Nil
  then show ?case by simp
next
  case (Cons x xs)
  then show ?case by (cases x) (auto split: if_splits)
qed

lemma find_existing_Some:
  "find_existing xs n i = Inr (Some k) \<Longrightarrow>
     \<exists>j<length xs. k = i + j \<and> has_name n (xs ! j) \<and> (\<forall>l<j. \<not> has_name n (xs ! l))"
proof (induction xs arbitrary: i)
  case Nil
  then show ?case by simp
next
  case (Cons x xs)
  show ?case
  proof (cases "has_name n x")
    case True
    with Cons.prems have "k = i" by (cases x) auto
    with True show ?thesis by (intro exI[of _ 0]) simp
  next
    case False
    with Cons.prems have "find_existing xs n (Suc i) = Inr (Some k)"
      by (cases x) (auto split: if_splits)
    from Cons.IH[OF this] obtain j where j: "j < length xs" "k = Suc i + j" "has_name n (xs ! j)"
      "\<forall>l<j. \<not> has_name n (xs ! l)" by blast
    have "\<forall>l<Suc j. \<not> has_name n ((x # xs) ! l)"
    proof (intro allI impI)
      fix l assume "l < Suc j"
      with False j(4) show "\<not> has_name n ((x # xs) ! l)" by (cases l) auto
    qed
    with j show ?thesis by (intro exI[of _ "Suc j"]) simp
  qed
qed

lemma list_agents_written:
  assumes "read_json fs = Inr d0" "write_json fs (JObj kvs) = Inr fs'" "map_of kvs ''agents'' = Some v"
  shows "list_agents fs' = v"
proof -
  from assms(1) have "readable fs" by (auto simp: read_json_def split: option.splits if_splits)
  with assms(2,3) show ?thesis
    by (auto simp: write_json_def list_agents_def read_json_def dict_get_def split: if_splits)
qed

text \<open>
  Claim C3. The store is a readable and writable file holding an object whose \<^verbatim>\<open>agents\<close>
  field is a list \<open>xs\<close> of records. Saving an agent succeeds. If a record of \<open>xs\<close> has the
  agent's name, the first such record, at position \<open>i\<close>, is replaced in place and the listing
  keeps its length; if none has, the agent is appended and the listing is longer by one.
\<close>

theorem save_agent_upsert:
  assumes "read_json fs = Inr (JObj kvs)"
    and "map_of kvs ''agents'' = Some (JArr xs)"
    and "\<forall>x\<in>set xs. is_dict x"
    and "writable fs"
  shows "list_agents fs = JArr xs \<and> fst (save_agent fs agent) \<and>
    (if \<exists>x\<in>set xs. has_name (dict_get agent ''name'' JNull) x
     then \<exists>i<length xs. has_name (dict_get agent ''name'' JNull) (xs ! i) \<and>
            (\<forall>j<i. \<not> has_name (dict_get agent ''name'' JNull) (xs ! j)) \<and>
            list_agents (snd (save_agent fs agent)) = JArr (xs[i := JObj agent]) \<and>
            py_len (list_agents (snd (save_agent fs agent))) = Inr (length xs)
     else list_agents (snd (save_agent fs agent)) = JArr (xs @ [JObj agent]) \<and>
          py_len (list_agents (snd (save_agent fs agent))) = Inr (length xs + 1))"
proof -
  let ?n = "dict_get agent ''name'' JNull"
  have before: "list_agents fs = JArr xs"
    using assms(1,2) by (simp add: list_agents_def dict_get_def)
  from find_existing_total[OF assms(3)] obtain r where r: "find_existing xs ?n 0 = Inr r" by blast
  show ?thesis
  proof (cases r)
    case None
    with r have no: "\<forall>x\<in>set xs. \<not> has_name ?n x" using find_existing_None by blast
    let ?kvs' = "AList.update ''agents'' (JArr (xs @ [JObj agent])) kvs"
    have body: "save_agent_try fs agent = write_json fs (JObj ?kvs')"
      using assms(1,2) r None by (simp add: save_agent_try_def)
    obtain fs' where w: "write_json fs (JObj ?kvs') = Inr fs'"
      using assms(4) by (simp add: write_json_def)
    have "map_of ?kvs' ''agents'' = Some (JArr (xs @ [JObj agent]))"
      by (simp add: update_conv')
    from list_agents_written[OF assms(1) w this] body w no before show ?thesis
      by (simp add: save_agent_def)
  next
    case (Some k)
    with r obtain j where j: "j < length xs" "k = j" "has_name ?n (xs ! j)"
      "\<forall>l<j. \<not> has_name ?n (xs ! l)" using find_existing_Some[of xs ?n 0 k] by auto
    from j(1,3) have ex: "\<exists>x\<in>set xs. has_name ?n x" using nth_mem by blast
    let ?kvs' = "AList.update ''agents'' (JArr (xs[j := JObj agent])) kvs"
    have body: "save_agent_try fs agent = write_json fs (JObj ?kvs')"
      using assms(1,2) r Some j(1,2) by (simp add: save_agent_try_def)
    obtain fs' where w: "write_json fs (JObj ?kvs') = Inr fs'"
      using assms(4) by (simp add: write_json_def)
    have "map_of ?kvs' ''agents'' = Some (JArr (xs[j := JObj agent]))"
      by (simp add: update_conv')
    from list_agents_written[OF assms(1) w this] have
      la: "list_agents fs' = JArr (xs[j := JObj agent])" .
    have sv: "save_agent fs agent = (True, fs')" using body w by (simp add: save_agent_def)
    have "\<exists>i<length xs. has_name ?n (xs ! i) \<and> (\<forall>j<i. \<not> has_name ?n (xs ! j)) \<and>
            list_agents (snd (save_agent fs agent)) = JArr (xs[i := JObj agent]) \<and>
            py_len (list_agents (snd (save_agent fs agent))) = Inr (length xs)"
      using j la sv by (intro exI[of _ j]) simp
    with ex sv before show ?thesis by simp
  qed
qed

theorem save_agent_upsert_witness:
  "fst (save_agent \<lparr>content = Some (Doc (JObj [(''agents'',
       JArr [JObj [(''name'', JStr ''A'')], JObj [(''name'', JStr ''B'')]])])),
     readable = True, writable = True\<rparr> [(''name'', JStr ''B''), (''description'', JStr ''new'')]) \<and>
   list_agents (snd (save_agent \<lparr>content = Some (Doc (JObj [(''agents'',
       JArr [JObj [(''name'', JStr ''A'')], JObj [(''name'', JStr ''B'')]])])),
     readable = True, writable = True\<rparr> [(''name'', JStr ''B''), (''description'', JStr ''new'')])) =
     JArr [JObj [(''name'', JStr ''A'')], JObj [(''name'', JStr ''B''), (''description'', JStr ''new'')]] \<and>
   py_len (list_agents (snd (save_agent \<lparr>content = Some (Doc (JObj [(''agents'',
       JArr [JObj [(''name'', JStr ''A'')], JObj [(''name'', JStr ''B'')]])])),
     readable = True, writable = True\<rparr> [(''name'', JStr ''B''), (''description'', JStr ''new'')]))) = Inr 2 \<and>
   py_len (list_agents (snd (save_agent \<lparr>content = Some (Doc (JObj [(''agents'',
       JArr [JObj [(''name'', JStr ''A'')], JObj [(''name'', JStr ''B'')]])])),
     readable = True, writable = True\<rparr> [(''name'', JStr ''C'')]))) = Inr 3"
proof -
  let ?xs = "[JObj [(''name'', JStr ''A'')], JObj [(''name'', JStr ''B'')]]"
  let ?kvs = "[(''agents'', JArr ?xs)]"
  let ?fs = "\<lparr>content = Some (Doc (JObj ?kvs)), readable = True, writable = True\<rparr>"
  have r: "read_json ?fs = Inr (JObj ?kvs)" by (simp add: read_json_def)
  have m: "map_of ?kvs ''agents'' = Some (JArr ?xs)" by simp
  have d: "\<forall>x\<in>set ?xs. is_dict x" by simp
  have w: "writable ?fs" by simp
  let ?b = "[(''name'', JStr ''B''), (''description'', JStr ''new'')]"
  have ex: "\<exists>x\<in>set ?xs. has_name (dict_get ?b ''name'' JNull) x"
    by (simp add: dict_get_def)
  from save_agent_upsert[OF r m d w, of ?b] ex
  obtain i where i: "i < length ?xs" "has_name (dict_get ?b ''name'' JNull) (?xs ! i)"
    "list_agents (snd (save_agent ?fs ?b)) = JArr (?xs[i := JObj ?b])"
    "py_len (list_agents (snd (save_agent ?fs ?b))) = Inr (length ?xs)"
    and ok: "fst (save_agent ?fs ?b)"
    by auto
  from i(1,2) have "i = 1"
    by (cases i) (simp_all add: dict_get_def)
  with i(3,4) ok save_agent_upsert[OF r m d w, of "[(''name'', JStr ''C'')]"]
  show ?thesis by (simp add: dict_get_def)
qed

subsection \<open>Statistics\<close>

lemma py_eq_hashable_sym: "hashable a \<Longrightarrow> hashable b \<Longrightarrow> py_eq a b = py_eq b a"
  by (cases a; cases b) auto

lemma py_eq_hashable_trans:
  "hashable a \<Longrightarrow> hashable b \<Longrightarrow> hashable c \<Longrightarrow> py_eq a b \<Longrightarrow> py_eq b c \<Longrightarrow> py_eq a c"
  by (cases a; cases b; cases c) (auto split: if_splits)

lemma py_eq_hashable_refl: "hashable a \<Longrightarrow> py_eq a a"
  by (cases a) auto

lemma cnt_update:
  assumes "keys_ok tc" "hashable k" "hashable k'"
  shows "cnt (pd_update k v tc) k' = (if py_eq k k' then v else cnt tc k')"
  using assms(1)
proof (induction tc)
  case Nil
  then show ?case by (simp add: cnt_def)
next
  case (Cons p tc)
  obtain a n where p: "p = (a, n)" by (cases p)
  from Cons.prems p have ha: "hashable a" and ok: "keys_ok tc" by (auto simp: keys_ok_def)
  from Cons.IH[OF ok] have ih: "cnt (pd_update k v tc) k' = (if py_eq k k' then v else cnt tc k')" .
  show ?case
  proof (cases "py_eq a k")
    case True
    have "py_eq a k' = py_eq k k'"
      using True ha assms(2,3) py_eq_hashable_trans py_eq_hashable_sym by blast
    with True p show ?thesis by (simp add: cnt_def)
  next
    case False
    have "py_eq a k' \<Longrightarrow> \<not> py_eq k k'"
      using False ha assms(2,3) py_eq_hashable_trans py_eq_hashable_sym by blast
    with False p ih show ?thesis by (auto simp: cnt_def)
  qed
qed

lemma keys_ok_update: "keys_ok tc \<Longrightarrow> hashable k \<Longrightarrow> keys_ok (pd_update k v tc)"
  by (induction tc) (fastforce simp: keys_ok_def split: if_splits)+

lemma sum_update: "sum_list (map snd (pd_update k (cnt tc k + 1) tc)) = sum_list (map snd tc) + 1"
  by (induction tc) (auto simp: cnt_def)

lemma count_types_invariant:
  assumes "\<forall>x\<in>set xs. is_dict x \<and> scalar_task_type x" "keys_ok tc"
  shows "\<exists>tc'. count_types xs tc = Inr tc' \<and> keys_ok tc' \<and>
           sum_list (map snd tc') = sum_list (map snd tc) + length xs \<and>
           (\<forall>k. hashable k \<longrightarrow>
              cnt tc' k = cnt tc k + length (filter (\<lambda>x. py_eq (task_type_of x) k) xs))"
  using assms
proof (induction xs arbitrary: tc)
  case Nil
  then show ?case by simp
next
  case (Cons x xs)
  from Cons.prems obtain d where x: "x = JObj d" by (cases x) auto
  let ?t = "dict_get d ''task_type'' (JStr ''unknown'')"
  from Cons.prems x have ht: "hashable ?t"
    by (auto simp: dict_get_def split: option.splits)
  let ?tc1 = "pd_update ?t (cnt tc ?t + 1) tc"
  have ok1: "keys_ok ?tc1" using Cons.prems(2) ht by (rule keys_ok_update)
  have rest: "\<forall>x\<in>set xs. is_dict x \<and> scalar_task_type x" using Cons.prems(1) by simp
  from Cons.IH[OF rest ok1] obtain tc' where tc': "count_types xs ?tc1 = Inr tc'" "keys_ok tc'"
    "sum_list (map snd tc') = sum_list (map snd ?tc1) + length xs"
    "\<forall>k. hashable k \<longrightarrow> cnt tc' k = cnt ?tc1 k + length (filter (\<lambda>x. py_eq (task_type_of x) k) xs)"
    by blast
  have step: "count_types (x # xs) tc = count_types xs ?tc1"
    using x ht by (simp add: cnt_def)
  have "\<forall>k. hashable k \<longrightarrow>
          cnt tc' k = cnt tc k + length (filter (\<lambda>x. py_eq (task_type_of x) k) (x # xs))"
  proof (intro allI impI)
    fix k assume hk: "hashable k"
    from cnt_update[OF Cons.prems(2) ht hk]
    have "cnt ?tc1 k = (if py_eq ?t k then cnt tc ?t + 1 else cnt tc k)" .
    moreover have "py_eq ?t k \<Longrightarrow> cnt tc ?t = cnt tc k"
    proof -
      assume e: "py_eq ?t k"
      have "\<And>tc. keys_ok tc \<Longrightarrow> pd_lookup tc ?t = pd_lookup tc k"
      proof -
        fix tc :: "(jval \<times> nat) list" assume "keys_ok tc"
        then show "pd_lookup tc ?t = pd_lookup tc k"
        proof (induction tc)
          case Nil
          then show ?case by simp
        next
          case (Cons p tc)
          obtain a n where p: "p = (a, n)" by (cases p)
          from Cons.prems p have ha: "hashable a" and ok: "keys_ok tc" by (auto simp: keys_ok_def)
          have "py_eq a ?t = py_eq a k"
            using e ha ht hk py_eq_hashable_trans py_eq_hashable_sym by blast
          with Cons.IH[OF ok] p show ?case by simp
        qed
      qed
      from this[OF Cons.prems(2)] show ?thesis by (simp add: cnt_def)
    qed
    ultimately show "cnt tc' k = cnt tc k + length (filter (\<lambda>x. py_eq (task_type_of x) k) (x # xs))"
      using tc'(4) hk x by auto
  qed
  with tc' step sum_update[of ?t tc] show ?case by simp
qed

lemma count_under_cnt: "count_under report k = cnt (agents_by_type report) k"
  by (simp add: count_under_def cnt_def)

lemma task_type_of_eq:
  assumes "is_dict x"
  shows "py_eq (task_type_of x) k \<longleftrightarrow>
           (task_type_absent x \<and> py_eq (JStr ''unknown'') k) \<or> has_task_type k x"
proof -
  from assms obtain d where "x = JObj d" by (cases x) auto
  then show ?thesis by (auto simp: dict_get_def split: option.splits)
qed

lemma py_eq_unknown: "hashable k \<Longrightarrow> py_eq (JStr ''unknown'') k \<longleftrightarrow> k = JStr ''unknown''"
  by (cases k) auto

text \<open>
  Claim C7, as amended. The store lists the records \<open>xs\<close>, each a dictionary whose task type,
  if present, is hashable. Then the report carries no error, its total is the length of the
  listing, the counts sum to the total, the count under \<^verbatim>\<open>"unknown"\<close> is the number of
  records without a task type or with the task type \<^verbatim>\<open>"unknown"\<close>, and the count under any
  other key is the number of records with that task type: a record with the empty task type
  is counted under the empty string.
\<close>

theorem get_storage_stats_counts:
  assumes "list_agents fs = JArr xs"
    and "\<forall>x\<in>set xs. is_dict x \<and> scalar_task_type x"
  shows "stats_error (get_storage_stats fs) = None \<and>
    py_len (list_agents fs) = Inr (total_agents (get_storage_stats fs)) \<and>
    sum_list (map snd (agents_by_type (get_storage_stats fs))) = total_agents (get_storage_stats fs) \<and>
    count_under (get_storage_stats fs) (JStr ''unknown'') =
      length (filter (\<lambda>x. task_type_absent x \<or> has_task_type (JStr ''unknown'') x) xs) \<and>
    (\<forall>k. hashable k \<and> k \<noteq> JStr ''unknown'' \<longrightarrow>
       count_under (get_storage_stats fs) k = length (filter (has_task_type k) xs))"
proof -
  have ok: "keys_ok []" by (simp add: keys_ok_def)
  from count_types_invariant[OF assms(2) ok] obtain tc where tc: "count_types xs [] = Inr tc"
    "sum_list (map snd tc) = length xs"
    "\<forall>k. hashable k \<longrightarrow> cnt tc k = cnt [] k + length (filter (\<lambda>x. py_eq (task_type_of x) k) xs)"
    by auto
  have report: "get_storage_stats fs =
      \<lparr>total_agents = length xs, agents_by_type = tc, file_exists = (content fs \<noteq> None),
       stats_error = None\<rparr>"
    using assms(1) tc(1) by (simp add: get_storage_stats_def get_storage_stats_try_def)
  have flt: "\<And>k. filter (\<lambda>x. py_eq (task_type_of x) k) xs =
      filter (\<lambda>x. (task_type_absent x \<and> py_eq (JStr ''unknown'') k) \<or> has_task_type k x) xs"
    using assms(2) task_type_of_eq by (intro filter_cong) auto
  have cnt_k: "\<And>k. hashable k \<Longrightarrow> cnt tc k =
      length (filter (\<lambda>x. (task_type_absent x \<and> py_eq (JStr ''unknown'') k) \<or> has_task_type k x) xs)"
    using tc(3) flt by (simp add: cnt_def)
  have unk: "cnt tc (JStr ''unknown'') =
      length (filter (\<lambda>x. task_type_absent x \<or> has_task_type (JStr ''unknown'') x) xs)"
    using cnt_k[of "JStr ''unknown''"] by simp
  have oth: "\<forall>k. hashable k \<and> k \<noteq> JStr ''unknown'' \<longrightarrow> cnt tc k = length (filter (has_task_type k) xs)"
    using cnt_k py_eq_unknown by simp
  from report assms(1) tc(2) unk oth show ?thesis
    by (simp add: count_under_cnt)
qed

text \<open>
  Claim C7 as stated fails for a record whose task type is the empty string: it is counted
  under the empty string, and nothing is counted under \<^verbatim>\<open>"unknown"\<close>.
\<close>

theorem get_storage_stats_empty_type_counterexample:
  "list_agents \<lparr>content = Some (Doc (JObj [(''agents'',
       JArr [JObj [(''name'', JStr ''A''), (''task_type'', JStr '''')]])])),
     readable = True, writable = True\<rparr> =
     JArr [JObj [(''name'', JStr ''A''), (''task_type'', JStr '''')]] \<and>
   agents_by_type (get_storage_stats \<lparr>content = Some (Doc (JObj [(''agents'',
       JArr [JObj [(''name'', JStr ''A''), (''task_type'', JStr '''')]])])),
     readable = True, writable = True\<rparr>) = [(JStr '''', 1)] \<and>
   count_under (get_storage_stats \<lparr>content = Some (Doc (JObj [(''agents'',
       JArr [JObj [(''name'', JStr ''A''), (''task_type'', JStr '''')]])])),
     readable = True, writable = True\<rparr>) (JStr ''unknown'') = 0"
  by (simp add: get_storage_stats_def get_storage_stats_try_def list_agents_def read_json_def
      dict_get_def count_under_def)

theorem get_storage_stats_counts_witness:
  "py_len (list_agents \<lparr>content = Some (Doc (JObj [(''agents'',
       JArr [JObj [(''name'', JStr ''A''), (''task_type'', JStr ''math'')],
             JObj [(''name'', JStr ''B'')]])])),
     readable = True, writable = True\<rparr>) = Inr 2 \<and>
   total_agents (get_storage_stats \<lparr>content = Some (Doc (JObj [(''agents'',
       JArr [JObj [(''name'', JStr ''A''), (''task_type'', JStr ''math'')],
             JObj [(''name'', JStr ''B'')]])])),
     readable = True, writable = True\<rparr>) = 2 \<and>
   sum_list (map snd (agents_by_type (get_storage_stats \<lparr>content = Some (Doc (JObj [(''agents'',
       JArr [JObj [(''name'', JStr ''A''), (''task_type'', JStr ''math'')],
             JObj [(''name'', JStr ''B'')]])])),
     readable = True, writable = True\<rparr>))) = 2 \<and>
   count_under (get_storage_stats \<lparr>content = Some (Doc (JObj [(''agents'',
       JArr [JObj [(''name'', JStr ''A''), (''task_type'', JStr ''math'')],
             JObj [(''name'', JStr ''B'')]])])),
     readable = True, writable = True\<rparr>) (JStr ''unknown'') = 1"
proof -
  let ?xs = "[JObj [(''name'', JStr ''A''), (''task_type'', JStr ''math'')], JObj [(''name'', JStr ''B'')]]"
  let ?fs = "\<lparr>content = Some (Doc (JObj [(''agents'', JArr ?xs)])), readable = True, writable = True\<rparr>"
  have l: "list_agents ?fs = JArr ?xs"
    by (simp add: list_agents_def read_json_def dict_get_def)
  have d: "\<forall>x\<in>set ?xs. is_dict x \<and> scalar_task_type x" by simp
  from get_storage_stats_counts[OF l d] l show ?thesis by simp
qed


section \<open>Properties of the orchestrator\<close>

lemma try_except_total: "(\<And>e. \<exists>v. handler e = Inr v) \<Longrightarrow> \<exists>v. try_except body handler = Inr v"
  by (cases body) (auto simp: try_except_def)

lemma analyze_task_total: "\<exists>a. analyze_task env request = Inr a"
  unfolding analyze_task_def by (rule try_except_total) simp

lemma create_new_agent_total: "\<exists>d. create_new_agent env ta = Inr d"
  unfolding create_new_agent_def by (rule try_except_total) simp

lemma delegate_task_total: "\<exists>s. delegate_task env agent request = Inr s"
  unfolding delegate_task_def by (rule try_except_total) simp

lemma handle_directly_total: "\<exists>s. handle_directly env request = Inr s"
  unfolding handle_directly_def by (rule try_except_total) simp

lemma process_request_returns: "\<exists>response fs'. process_request env fs request = (Inr response, fs')"
proof -
  obtain r fs' where r: "process_request_try env fs request = (r, fs')"
    by (cases "process_request_try env fs request")
  have "\<exists>v. try_except r
      (\<lambda>e. Inr (''I encountered an error while processing your request: '' @ env_describe env e)) = Inr v"
    by (rule try_except_total) simp
  with r show ?thesis by (simp add: process_request_def)
qed

lemma analyze_task_fallback:
  "json_call_failed env (AnalysisPrompt request) \<Longrightarrow> analyze_task env request = Inr fallback_analysis"
  by (auto simp: json_call_failed_def analyze_task_def analyze_task_try_def try_except_def
      split: response.splits sum.splits)

lemma create_new_agent_fallback:
  "json_call_failed env (creation_prompt env ta) \<Longrightarrow>
   create_new_agent env ta = Inr (fallback_agent env ta)"
  by (auto simp: json_call_failed_def create_new_agent_def create_new_agent_try_def try_except_def
      split: response.splits sum.splits)

lemma delegate_task_fallback:
  "call_failed env (delegation_prompt env agent request) \<Longrightarrow>
   delegate_task env agent request =
     (case env_generate env (delegation_prompt env agent request) of
        Raises e \<Rightarrow> Inr (''Error occurred while delegating to ''
                  @ py_format (env_render env) (dict_get agent ''name'' JNull)
                  @ '': '' @ env_describe env e)
      | Response text \<Rightarrow> Inr ''The specialized agent was unable to provide a response.'')"
  by (auto simp: call_failed_def delegate_task_def delegate_task_try_def try_except_def
      split: response.splits)

lemma handle_directly_fallback:
  "call_failed env (DirectPrompt request) \<Longrightarrow>
   handle_directly env request =
     (case env_generate env (DirectPrompt request) of
        Raises e \<Rightarrow> Inr (''I encountered an error: '' @ env_describe env e)
      | Response text \<Rightarrow> Inr ''I'm unable to process your request at the moment.'')"
  by (auto simp: call_failed_def handle_directly_def handle_directly_try_def try_except_def
      split: response.splits)

text \<open>
  Claim C2. Whatever the client, the parser and the store do, \<open>process_request\<close> returns a
  string, and so do the four functions that call the client return a value: none of them
  lets an exception through. When a call of the client fails (it raises, it answers without
  text or, where JSON is expected, with text that is not JSON), the function that made the
  call returns its fallback: the default analysis, the fallback agent built from the
  analysis, or the fixed reply.
\<close>

theorem process_request_total:
  "(\<exists>response fs'. process_request env fs request = (Inr response, fs')) \<and>
   (\<exists>a. analyze_task env request = Inr a) \<and>
   (\<exists>d. create_new_agent env ta = Inr d) \<and>
   (\<exists>s. delegate_task env agent request = Inr s) \<and>
   (\<exists>s. handle_directly env request = Inr s) \<and>
   (json_call_failed env (AnalysisPrompt request) \<longrightarrow>
      analyze_task env request = Inr fallback_analysis) \<and>
   (json_call_failed env (creation_prompt env ta) \<longrightarrow>
      create_new_agent env ta = Inr (fallback_agent env ta)) \<and>
   (call_failed env (delegation_prompt env agent request) \<longrightarrow>
      delegate_task env agent request =
        (case env_generate env (delegation_prompt env agent request) of
           Raises e \<Rightarrow> Inr (''Error occurred while delegating to ''
                     @ py_format (env_render env) (dict_get agent ''name'' JNull)
                     @ '': '' @ env_describe env e)
         | Response text \<Rightarrow> Inr ''The specialized agent was unable to provide a response.'')) \<and>
   (call_failed env (DirectPrompt request) \<longrightarrow>
      handle_directly env request =
        (case env_generate env (DirectPrompt request) of
           Raises e \<Rightarrow> Inr (''I encountered an error: '' @ env_describe env e)
         | Response text \<Rightarrow> Inr ''I'm unable to process your request at the moment.''))"
  using process_request_returns analyze_task_total create_new_agent_total delegate_task_total
    handle_directly_total analyze_task_fallback create_new_agent_fallback delegate_task_fallback
    handle_directly_fallback
  by (intro conjI impI) blast+


theorem process_request_total_witness:
  "json_call_failed
     \<lparr>env_generate = (\<lambda>p. case p of
          AnalysisPrompt u \<Rightarrow> Response (Some ''analysis'')
        | _ \<Rightarrow> Raises (ClientError ''quota'')),
      env_loads = (\<lambda>s. if s = ''analysis''
                         then Inr (JObj [(''task_type'', JStr ''math''),
                                         (''agent_description'', JStr ''arithmetic helper''),
                                         (''requires_delegation'', JBool True)])
                         else Inl JSONDecodeError),
      env_render = (\<lambda>v. ''None''),
      env_describe = (\<lambda>e. case e of ClientError m \<Rightarrow> m | _ \<Rightarrow> ''error'')\<rparr>
     (CreationPrompt ''math'' ''arithmetic helper'' ''simple'') \<and>
   process_request
     \<lparr>env_generate = (\<lambda>p. case p of
          AnalysisPrompt u \<Rightarrow> Response (Some ''analysis'')
        | _ \<Rightarrow> Raises (ClientError ''quota'')),
      env_loads = (\<lambda>s. if s = ''analysis''
                         then Inr (JObj [(''task_type'', JStr ''math''),
                                         (''agent_description'', JStr ''arithmetic helper''),
                                         (''requires_delegation'', JBool True)])
                         else Inl JSONDecodeError),
      env_render = (\<lambda>v. ''None''),
      env_describe = (\<lambda>e. case e of ClientError m \<Rightarrow> m | _ \<Rightarrow> ''error'')\<rparr>
     \<lparr>content = Some (Doc (JObj [(''agents'', JArr [])])), readable = True, writable = True\<rparr>
     ''what is 2 + 2'' =
   (Inr ''Error occurred while delegating to mathAgent: quota'',
    \<lparr>content = Some (Doc (JObj [(''agents'', JArr [JObj
        [(''name'', JStr ''mathAgent''),
         (''description'', JStr ''arithmetic helper''),
         (''system_prompt'', JStr ''You are a helpful assistant specializing in math.''),
         (''task_type'', JStr ''math''),
         (''created_by'', JStr ''MasterAgent'')]])])),
     readable = True, writable = True\<rparr>)"
proof -
  let ?env = "\<lparr>env_generate = (\<lambda>p. case p of
          AnalysisPrompt u \<Rightarrow> Response (Some ''analysis'')
        | _ \<Rightarrow> Raises (ClientError ''quota'')),
      env_loads = (\<lambda>s. if s = ''analysis''
                         then Inr (JObj [(''task_type'', JStr ''math''),
                                         (''agent_description'', JStr ''arithmetic helper''),
                                         (''requires_delegation'', JBool True)])
                         else Inl JSONDecodeError),
      env_render = (\<lambda>v. ''None''),
      env_describe = (\<lambda>e. case e of ClientError m \<Rightarrow> m | _ \<Rightarrow> ''error'')\<rparr>"
  let ?ta = "[(''task_type'', JStr ''math''), (''agent_description'', JStr ''arithmetic helper''),
              (''requires_delegation'', JBool True)]"
  let ?fs = "\<lparr>content = Some (Doc (JObj [(''agents'', JArr [])])), readable = True, writable = True\<rparr>"
  let ?new = "[(''name'', JStr ''mathAgent''),
         (''description'', JStr ''arithmetic helper''),
         (''system_prompt'', JStr ''You are a helpful assistant specializing in math.''),
         (''task_type'', JStr ''math''),
         (''created_by'', JStr ''MasterAgent'')]"
  have p: "creation_prompt ?env ?ta = CreationPrompt ''math'' ''arithmetic helper'' ''simple''"
    by (simp add: creation_prompt_def dict_get_def py_format_def)
  have f: "json_call_failed ?env (creation_prompt ?env ?ta)"
    by (simp add: p json_call_failed_def)
  have fb: "fallback_agent ?env ?ta = ?new"
    by (simp add: fallback_agent_def dict_get_def py_format_def)
  from process_request_total[of ?env ?fs "''what is 2 + 2''" ?ta ?new] f fb
  have c: "create_new_agent ?env ?ta = Inr ?new"
    and d: "call_failed ?env (delegation_prompt ?env ?new ''what is 2 + 2'') \<longrightarrow>
      delegate_task ?env ?new ''what is 2 + 2'' =
        (case env_generate ?env (delegation_prompt ?env ?new ''what is 2 + 2'') of
           Raises e \<Rightarrow> Inr (''Error occurred while delegating to ''
                     @ py_format (env_render ?env) (dict_get ?new ''name'' JNull)
                     @ '': '' @ env_describe ?env e)
         | Response text \<Rightarrow> Inr ''The specialized agent was unable to provide a response.'')"
    by simp_all
  have dp: "delegation_prompt ?env ?new ''what is 2 + 2'' =
      DelegationPrompt ''You are a helpful assistant specializing in math.'' ''mathAgent''
        ''arithmetic helper'' ''what is 2 + 2''"
    by (simp add: delegation_prompt_def dict_get_def py_format_def)
  from d have dt: "delegate_task ?env ?new ''what is 2 + 2'' =
      Inr ''Error occurred while delegating to mathAgent: quota''"
    by (simp add: dp call_failed_def dict_get_def py_format_def)
  have a: "analyze_task ?env ''what is 2 + 2'' = Inr (JObj ?ta)"
    by (simp add: analyze_task_def analyze_task_try_def try_except_def)
  have l: "list_agents ?fs = JArr []"
    by (simp add: list_agents_def read_json_def dict_get_def)
  have s: "save_agent ?fs ?new = (True,
      \<lparr>content = Some (Doc (JObj [(''agents'', JArr [JObj ?new])])), readable = True, writable = True\<rparr>)"
    by (simp add: save_agent_def save_agent_try_def read_json_def write_json_def dict_get_def)
  have fc: "find_or_create_agent ?env ?fs (JObj ?ta) = (Inr (Some ?new),
      \<lparr>content = Some (Doc (JObj [(''agents'', JArr [JObj ?new])])), readable = True, writable = True\<rparr>)"
    unfolding find_or_create_agent_def
    by (simp add: l c s find_similar_agent_any_def name_item_def dict_get_def)
  show ?thesis
    using f p by (simp add: process_request_def process_request_try_def a fc dt name_item_def
        try_except_def)
qed

end
